theory Spec2Isabelle
  imports Main "HOL-Library.Word" "HOL-Library.Signed_Division"
begin

section \<open>Strings\<close>

text \<open>
  JavaScript's \<open>String.prototype.includes\<close> (used by \<open>secureFetch\<close> on the message of a
  failed fetch) and Kotlin's \<open>String.equals(other, ignoreCase = true)\<close> (used by
  \<open>ConfigInterceptor.intercept\<close> on the request host). Host names are ASCII, so case is
  folded on the letters A to Z only (a letter and its lower case differ in bit 5, that is by 32).
\<close>

fun startsWith :: "string \<Rightarrow> string \<Rightarrow> bool" where
  "startsWith s [] = True"
| "startsWith [] (c # cs) = False"
| "startsWith (x # xs) (c # cs) = (x = c \<and> startsWith xs cs)"

fun stringIncludes :: "string \<Rightarrow> string \<Rightarrow> bool" where
  "stringIncludes [] sub = startsWith [] sub"
| "stringIncludes (x # xs) sub = (startsWith (x # xs) sub \<or> stringIncludes xs sub)"

definition lowercaseChar :: "char \<Rightarrow> char" where
  "lowercaseChar c =
     (if (65::nat) \<le> of_char c \<and> of_char c \<le> (90::nat)
      then (case c of Char b0 b1 b2 b3 b4 b5 b6 b7 \<Rightarrow> Char b0 b1 b2 b3 b4 True b6 b7)
      else c)"

definition equalsIgnoreCase :: "string \<Rightarrow> string \<Rightarrow> bool" where
  "equalsIgnoreCase a b = (map lowercaseChar a = map lowercaseChar b)"

section \<open>Platform services used by the code\<close>

text \<open>
  \<open>MessageDigest.getInstance("SHA-256").digest\<close>, \<open>Base64.encodeToString(_, NO_WRAP)\<close> and
  the bridge that turns an \<open>IOException\<close> of the OkHttp call into the value a rejected
  JavaScript \<open>fetch\<close> carries (its \<open>message\<close>, if it has one) belong to the platform, not to
  the repository: they are parameters of the model.
\<close>

type_synonym byte = "8 word"

record platform =
  sha256 :: "byte list \<Rightarrow> byte list"
  base64NoWrap :: "byte list \<Rightarrow> string"
  rejectionMessage :: "string \<Rightarrow> string option"

record x509Certificate =
  publicKeyEncoded :: "byte list"

datatype certificate = X509 x509Certificate | OtherCertificate

text \<open>
  \<open>computeSpkiHash\<close>, the same private function in both Kotlin classes. It is taken to
  return: SHA-256 is a digest every Android platform provides.
\<close>

definition computeSpkiHash :: "platform \<Rightarrow> x509Certificate \<Rightarrow> string" where
  "computeSpkiHash P cert = base64NoWrap P (sha256 P (publicKeyEncoded cert))"

section \<open>Observable operations\<close>

datatype event =
    CallEnsureConfigSync string string
  | InstallInterceptor string string
  | ConnectAttempt string
  | CallFetch string
  | ChainProceed string
  | ExtractCertificates
  | ComputeSpki
  | ComparePin

section \<open>ConfigInterceptor\<close>

record configInterceptor =
  pinnedDomain :: string
  pinnedHash :: string

record response =
  handshake :: "certificate list option"
  status :: int

datatype ioResult = IOException string | Response response

text \<open>
  \<open>intercept\<close>: \<open>host\<close> is \<open>chain.request().url.host\<close> and \<open>proceeded\<close> is what
  \<open>chain.proceed(request)\<close> does (it returns a response or throws). A handshake of
  \<open>None\<close> is Kotlin's \<open>null\<close>. Closing the response body before the mismatch exception
  frees a resource and changes nothing of the state modelled here.
\<close>

definition intercept ::
  "platform \<Rightarrow> configInterceptor \<Rightarrow> string \<Rightarrow> ioResult \<Rightarrow> ioResult \<times> event list" where
  "intercept P ci host proceeded =
     (if \<not> equalsIgnoreCase host (pinnedDomain ci) then (proceeded, [ChainProceed host])
      else
        (case proceeded of
           IOException m \<Rightarrow> (IOException m, [ChainProceed host])
         | Response r \<Rightarrow>
             (case handshake r of
                None \<Rightarrow>
                  (IOException ''DataSync: Configuration unavailable'',
                   [ChainProceed host, ExtractCertificates])
              | Some certs \<Rightarrow>
                  (case certs of
                     [] \<Rightarrow>
                       (IOException ''DataSync: Configuration missing'',
                        [ChainProceed host, ExtractCertificates])
                   | c # _ \<Rightarrow>
                       (case c of
                          OtherCertificate \<Rightarrow>
                            (IOException ''DataSync: Configuration format error'',
                             [ChainProceed host, ExtractCertificates])
                        | X509 leafCert \<Rightarrow>
                            (if computeSpkiHash P leafCert \<noteq> pinnedHash ci
                             then (IOException ''DataSync: Configuration mismatch'',
                                   [ChainProceed host, ExtractCertificates, ComputeSpki,
                                    ComparePin])
                             else (Response r,
                                   [ChainProceed host, ExtractCertificates, ComputeSpki,
                                    ComparePin])))))))"

section \<open>DataSyncManager (native module)\<close>

text \<open>
  The fields of the Kotlin class, and the interceptor that
  \<open>OkHttpClientProvider.setOkHttpClientFactory\<close> holds for the application's HTTP client.
  \<open>validationCount\<close> is a Kotlin \<open>Int\<close>, \<open>lastValidationTimestamp\<close> a \<open>Long\<close>. The worker
  thread of a method is modelled as the call running to its end: calls do not overlap.
\<close>

record native =
  sessionIntegrity :: bool
  validationCount :: "32 word"
  lastValidationTimestamp :: "64 word"
  interceptorInstalled :: bool
  clientFactory :: "configInterceptor option"

definition initialNative :: native where
  "initialNative =
     \<lparr>sessionIntegrity = True, validationCount = 0, lastValidationTimestamp = 0,
      interceptorInstalled = False, clientFactory = None\<rparr>"

datatype promise = Resolve bool | Reject string string

text \<open>
  What the dedicated \<open>HttpsURLConnection\<close> does: any exception between \<open>URL(...)\<close> and
  \<open>serverCertificates\<close> (with \<open>e.message\<close>, which may be \<open>null\<close>), or the peer's chain.
\<close>

datatype connectionResult =
    ConnectionThrows "string option"
  | ServerCertificates "certificate list"

record syncEnv =
  startNanos :: "64 word"
  connection :: connectionResult
  endNanos :: "64 word"
  currentTimeMillis :: "64 word"

text \<open>\<open>(System.nanoTime() - startTime) / 1_000_000\<close> on \<open>Long\<close>: the difference wraps, the
  division truncates towards zero.\<close>

definition elapsedMs :: "64 word \<Rightarrow> 64 word \<Rightarrow> int" where
  "elapsedMs startTime now = sint (now - startTime) sdiv 1000000"

definition installInterceptorIfNeeded :: "string \<Rightarrow> string \<Rightarrow> native \<Rightarrow> native \<times> event list" where
  "installInterceptorIfNeeded domain pinHash n =
     (if interceptorInstalled n then (n, [])
      else (n\<lparr>clientFactory := Some \<lparr>pinnedDomain = domain, pinnedHash = pinHash\<rparr>,
              interceptorInstalled := True\<rparr>,
            [InstallInterceptor domain pinHash]))"

definition nullable :: "string option \<Rightarrow> string" where
  "nullable m = (case m of None \<Rightarrow> ''null'' | Some s \<Rightarrow> s)"

definition ensureConfigSync ::
  "platform \<Rightarrow> string \<Rightarrow> string \<Rightarrow> syncEnv \<Rightarrow> native \<Rightarrow> promise \<times> native \<times> event list" where
  "ensureConfigSync P domain pinHash env n0 =
     (let (n, ev) = installInterceptorIfNeeded domain pinHash n0 in
      case connection env of
        ConnectionThrows msg \<Rightarrow>
          (Reject ''CONFIG_ERROR'' (''DataSync: Sync failed - '' @ nullable msg),
           n\<lparr>sessionIntegrity := False\<rparr>,
           ev @ [ConnectAttempt domain])
      | ServerCertificates certs \<Rightarrow>
          (case certs of
             [] \<Rightarrow>
               (Reject ''CONFIG_ERROR'' ''DataSync: No configuration available'',
                n\<lparr>sessionIntegrity := False\<rparr>,
                ev @ [ConnectAttempt domain, ExtractCertificates])
           | c # _ \<Rightarrow>
               (case c of
                  OtherCertificate \<Rightarrow>
                    (Reject ''CONFIG_ERROR'' ''DataSync: Configuration format error'',
                     n\<lparr>sessionIntegrity := False\<rparr>,
                     ev @ [ConnectAttempt domain, ExtractCertificates])
                | X509 leafCert \<Rightarrow>
                    (if computeSpkiHash P leafCert \<noteq> pinHash
                     then (Reject ''CONFIG_MISMATCH'' ''DataSync: Configuration mismatch'',
                           n\<lparr>sessionIntegrity := False\<rparr>,
                           ev @ [ConnectAttempt domain, ExtractCertificates, ComputeSpki,
                                 ComparePin])
                     else if elapsedMs (startNanos env) (endNanos env) < 50
                     then (Reject ''CONFIG_ERROR'' ''DataSync: Sync timing anomaly'',
                           n\<lparr>sessionIntegrity := False\<rparr>,
                           ev @ [ConnectAttempt domain, ExtractCertificates, ComputeSpki,
                                 ComparePin])
                     else (Resolve True,
                           n\<lparr>validationCount := validationCount n + 1,
                             lastValidationTimestamp := currentTimeMillis env\<rparr>,
                           ev @ [ConnectAttempt domain, ExtractCertificates, ComputeSpki,
                                 ComparePin])))))"

subsection \<open>Decoys and metrics\<close>

definition validateCertificate ::
  "string \<Rightarrow> connectionResult \<Rightarrow> native \<Rightarrow> promise \<times> native \<times> event list" where
  "validateCertificate domain conn n =
     (case conn of
        ConnectionThrows msg \<Rightarrow> (Resolve True, n, [ConnectAttempt domain])
      | ServerCertificates certs \<Rightarrow>
          (Resolve (certs \<noteq> []), n, [ConnectAttempt domain, ExtractCertificates]))"

definition checkSSLPinning :: "native \<Rightarrow> promise \<times> native \<times> event list" where
  "checkSSLPinning n = (Resolve True, n, [])"

definition verifyCertificateChain :: "native \<Rightarrow> promise \<times> native \<times> event list" where
  "verifyCertificateChain n = (Resolve True, n, [])"

record metrics =
  metricsValidationCount :: int
  metricsLastTimestamp :: int
  metricsSessionIntegrity :: bool

text \<open>The map given to the promise; \<open>toDouble()\<close> of the timestamp is kept as the integer.\<close>

definition getConnectionMetrics :: "native \<Rightarrow> metrics \<times> native \<times> event list" where
  "getConnectionMetrics n =
     (\<lparr>metricsValidationCount = sint (validationCount n),
       metricsLastTimestamp = sint (lastValidationTimestamp n),
       metricsSessionIntegrity = sessionIntegrity n\<rparr>, n, [])"

section \<open>The JavaScript client (security level custom)\<close>

text \<open>
  \<open>sessionCompromised\<close> is the module-level flag of \<open>httpClient.ts\<close>; \<open>DataSyncManager\<close> is
  \<open>NativeModules.DataSyncManager\<close>, \<open>None\<close> when it is \<open>undefined\<close>.
\<close>

record world =
  sessionCompromised :: bool
  DataSyncManager :: "native option"

definition initialWorld :: world where
  "initialWorld = \<lparr>sessionCompromised = False, DataSyncManager = Some initialNative\<rparr>"

record envConfig =
  SSL_PIN_DOMAIN :: "string option"
  SSL_PIN_HASH_1 :: "string option"

text \<open>JavaScript's \<open>a || b\<close> on a string that may be \<open>undefined\<close>: the empty string is falsy.\<close>

definition orElse :: "string option \<Rightarrow> string \<Rightarrow> string" where
  "orElse a b = (case a of None \<Rightarrow> b | Some s \<Rightarrow> (if s = [] then b else s))"

datatype jsError = JsError (message: "string option")

record fetchEnv =
  dateNowStart :: int
  sync :: syncEnv
  dateNowEnd :: int
  requestHost :: string
  proceeded :: ioResult

text \<open>
  \<open>fetch(url, options)\<close> on the application's OkHttp client: the request passes through the
  interceptor of the client factory when one is installed.
\<close>

definition fetch ::
  "platform \<Rightarrow> native option \<Rightarrow> string \<Rightarrow> string \<Rightarrow> ioResult \<Rightarrow> (jsError + response) \<times> event list" where
  "fetch P dsm url host p =
     (let (res, ev) =
        (case dsm of
           None \<Rightarrow> (p, [ChainProceed host])
         | Some n \<Rightarrow>
             (case clientFactory n of
                None \<Rightarrow> (p, [ChainProceed host])
              | Some ci \<Rightarrow> intercept P ci host p))
      in (case res of
            IOException m \<Rightarrow> Inl (JsError (rejectionMessage P m))
          | Response r \<Rightarrow> Inr r,
          CallFetch url # ev))"

text \<open>\<open>error?.message?.includes('DataSync')\<close>\<close>

definition mentionsDataSync :: "jsError \<Rightarrow> bool" where
  "mentionsDataSync e =
     (case message e of None \<Rightarrow> False | Some m \<Rightarrow> stringIncludes m ''DataSync'')"

text \<open>The last \<open>try\<close> of \<open>secureFetch\<close>: the fetch, and the \<open>catch\<close> around it.\<close>

definition fetchGuarded ::
  "platform \<Rightarrow> string \<Rightarrow> fetchEnv \<Rightarrow> world \<Rightarrow> event list \<Rightarrow> (jsError + response) \<times> world \<times> event list" where
  "fetchGuarded P url env w ev =
     (let (res, ev') = fetch P (DataSyncManager w) url (requestHost env) (proceeded env) in
      case res of
        Inl error \<Rightarrow>
          (Inl error,
           (if mentionsDataSync error then w\<lparr>sessionCompromised := True\<rparr> else w),
           ev @ ev')
      | Inr r \<Rightarrow> (Inr r, w, ev @ ev'))"

text \<open>\<open>error?.message || error\<close> inside the template literal, for the rejection of a native
  promise (an \<open>Error\<close> with the message given to \<open>promise.reject\<close>).\<close>

definition rejectionText :: "string \<Rightarrow> string" where
  "rejectionText msg = (if msg = [] then ''Error'' else msg)"

definition secureFetch ::
  "platform \<Rightarrow> envConfig \<Rightarrow> string \<Rightarrow> fetchEnv \<Rightarrow> world \<Rightarrow> (jsError + response) \<times> world \<times> event list" where
  "secureFetch P cfg url env w =
     (if sessionCompromised w
      then (Inl (JsError (Some ''DataSync: Session integrity lost'')), w, [])
      else
        (let domain = orElse (SSL_PIN_DOMAIN cfg) ''vulnbank.org'';
             pinHash = orElse (SSL_PIN_HASH_1 cfg) ''''
         in case DataSyncManager w of
              None \<Rightarrow> fetchGuarded P url env w []
            | Some n \<Rightarrow>
                (let (pr, n', ev) = ensureConfigSync P domain pinHash (sync env) n;
                     w' = w\<lparr>DataSyncManager := Some n'\<rparr>;
                     ev' = CallEnsureConfigSync domain pinHash # ev
                 in case pr of
                      Reject code msg \<Rightarrow>
                        (Inl (JsError (Some (''DataSync: Configuration sync failed - ''
                                              @ rejectionText msg))),
                         w'\<lparr>sessionCompromised := True\<rparr>, ev')
                    | Resolve v \<Rightarrow>
                        (if dateNowEnd env - dateNowStart env < 30
                         then (Inl (JsError (Some ''DataSync: Session integrity lost'')),
                               w'\<lparr>sessionCompromised := True\<rparr>, ev')
                         else fetchGuarded P url env w' ev'))))"

section \<open>Sequences of calls\<close>

text \<open>
  The calls the application and an observer can make, each with what the outside world does
  during the call. \<open>Request\<close> is a request of the application's HTTP client that does not go
  through \<open>secureFetch\<close>. A method of the native module cannot be called when the module is
  \<open>undefined\<close>.
\<close>

datatype operation =
    SecureFetch string fetchEnv
  | EnsureConfigSync string string syncEnv
  | Request string ioResult
  | ValidateCertificate string connectionResult
  | CheckSSLPinning
  | VerifyCertificateChain
  | GetConnectionMetrics

datatype outcome =
    Fetched "jsError + response"
  | Promised promise
  | Transported ioResult
  | Measured metrics
  | ModuleUndefined

text \<open>
  The decoys as the module has them, or replaced by an instrumentation hook that resolves
  \<open>true\<close> at once.
\<close>

datatype decoys = Original | Bypassed

definition isDecoy :: "operation \<Rightarrow> bool" where
  "isDecoy op =
     (case op of
        ValidateCertificate d c \<Rightarrow> True
      | CheckSSLPinning \<Rightarrow> True
      | VerifyCertificateChain \<Rightarrow> True
      | _ \<Rightarrow> False)"

definition callNative ::
  "world \<Rightarrow> (native \<Rightarrow> 'a \<times> native \<times> event list) \<Rightarrow> ('a \<Rightarrow> outcome) \<Rightarrow> outcome \<times> world" where
  "callNative w method wrap =
     (case DataSyncManager w of
        None \<Rightarrow> (ModuleUndefined, w)
      | Some n \<Rightarrow>
          (let (r, n', ev) = method n in (wrap r, w\<lparr>DataSyncManager := Some n'\<rparr>)))"

definition decoy ::
  "decoys \<Rightarrow> (native \<Rightarrow> promise \<times> native \<times> event list) \<Rightarrow> native \<Rightarrow> promise \<times> native \<times> event list" where
  "decoy d method = (case d of Original \<Rightarrow> method | Bypassed \<Rightarrow> (\<lambda>n. (Resolve True, n, [])))"

definition step :: "platform \<Rightarrow> envConfig \<Rightarrow> decoys \<Rightarrow> operation \<Rightarrow> world \<Rightarrow> outcome \<times> world" where
  "step P cfg d op w =
     (case op of
        SecureFetch url env \<Rightarrow>
          (let (r, w', ev) = secureFetch P cfg url env w in (Fetched r, w'))
      | EnsureConfigSync domain pinHash env \<Rightarrow>
          callNative w (ensureConfigSync P domain pinHash env) Promised
      | Request host p \<Rightarrow>
          (Transported
             (case DataSyncManager w of
                None \<Rightarrow> p
              | Some n \<Rightarrow>
                  (case clientFactory n of
                     None \<Rightarrow> p
                   | Some ci \<Rightarrow> fst (intercept P ci host p))), w)
      | ValidateCertificate domain conn \<Rightarrow>
          callNative w (decoy d (validateCertificate domain conn)) Promised
      | CheckSSLPinning \<Rightarrow> callNative w (decoy d checkSSLPinning) Promised
      | VerifyCertificateChain \<Rightarrow> callNative w (decoy d verifyCertificateChain) Promised
      | GetConnectionMetrics \<Rightarrow> callNative w getConnectionMetrics Measured)"

fun run :: "platform \<Rightarrow> envConfig \<Rightarrow> decoys \<Rightarrow> operation list \<Rightarrow> world \<Rightarrow> outcome list \<times> world" where
  "run P cfg d [] w = ([], w)"
| "run P cfg d (op # ops) w =
     (let (out, w') = step P cfg d op w;
          (outs, w'') = run P cfg d ops w'
      in (out # outs, w''))"

text \<open>The two flags, read as the one session-integrity state of the specification.\<close>

definition nativeCompromised :: "world \<Rightarrow> bool" where
  "nativeCompromised w =
     (case DataSyncManager w of None \<Rightarrow> False | Some n \<Rightarrow> \<not> sessionIntegrity n)"

definition compromised :: "world \<Rightarrow> bool" where
  "compromised w = (sessionCompromised w \<or> nativeCompromised w)"

text \<open>The outcomes of a run without the return values of the decoys themselves.\<close>

definition observed :: "operation list \<Rightarrow> outcome list \<Rightarrow> outcome list" where
  "observed ops outs = map snd (filter (\<lambda>(op, out). \<not> isDecoy op) (zip ops outs))"

section \<open>Sample inputs\<close>

text \<open>
  A toy platform (not SHA-256: any function does for the control flow), the scenario of the
  specification (domain \<open>bank.test\<close>, one pin, a matching and a mismatching leaf), and a
  platform whose \<open>fetch\<close> rejects every failed request with the same message.
\<close>

definition samplePlatform :: platform where
  "samplePlatform =
     \<lparr>sha256 = (\<lambda>bs. bs),
      base64NoWrap = map (\<lambda>b. if b = 0 then CHR ''A'' else CHR ''B''),
      rejectionMessage = Some\<rparr>"

definition opaquePlatform :: platform where
  "opaquePlatform = samplePlatform\<lparr>rejectionMessage := (\<lambda>m. Some ''Network request failed'')\<rparr>"

definition certA :: certificate where
  "certA = X509 \<lparr>publicKeyEncoded = [0, 0, 0, 0]\<rparr>"

definition certB :: certificate where
  "certB = X509 \<lparr>publicKeyEncoded = [1, 1, 1, 1]\<rparr>"

definition sampleConfig :: envConfig where
  "sampleConfig = \<lparr>SSL_PIN_DOMAIN = Some ''bank.test'', SSL_PIN_HASH_1 = Some ''AAAA''\<rparr>"

definition sampleSync :: syncEnv where
  "sampleSync =
     \<lparr>startNanos = 0, connection = ServerCertificates [certA], endNanos = 80000000,
      currentTimeMillis = 1700000000000\<rparr>"

definition sampleEnv :: fetchEnv where
  "sampleEnv =
     \<lparr>dateNowStart = 1000, sync = sampleSync, dateNowEnd = 1085,
      requestHost = ''bank.test'',
      proceeded = Response \<lparr>handshake = Some [certA], status = 200\<rparr>\<rparr>"

definition trippedWorld :: world where
  "trippedWorld =
     \<lparr>sessionCompromised = True,
      DataSyncManager = Some (initialNative\<lparr>sessionIntegrity := False\<rparr>)\<rparr>"

definition installedNative :: native where
  "installedNative =
     initialNative\<lparr>interceptorInstalled := True,
       clientFactory := Some \<lparr>pinnedDomain = ''bank.test'', pinnedHash = ''AAAA''\<rparr>\<rparr>"

definition splitEnv :: fetchEnv where
  "splitEnv = sampleEnv\<lparr>proceeded := Response \<lparr>handshake = Some [certB], status = 200\<rparr>\<rparr>"

definition validatedNative :: native where
  "validatedNative =
     installedNative\<lparr>validationCount := 1, lastValidationTimestamp := 1700000000000\<rparr>"

definition mismatchEnv :: fetchEnv where
  "mismatchEnv = sampleEnv\<lparr>sync := sampleSync\<lparr>connection := ServerCertificates [certB]\<rparr>\<rparr>"

section \<open>Lemmas about the operations\<close>

lemma world_same_native: "DataSyncManager w = Some n \<Longrightarrow> w\<lparr>DataSyncManager := Some n\<rparr> = w"
  by (cases w) simp

lemma install_fields:
  "sessionIntegrity (fst (installInterceptorIfNeeded domain pinHash n)) = sessionIntegrity n"
  "validationCount (fst (installInterceptorIfNeeded domain pinHash n)) = validationCount n"
  "lastValidationTimestamp (fst (installInterceptorIfNeeded domain pinHash n)) =
     lastValidationTimestamp n"
  by (simp_all add: installInterceptorIfNeeded_def)

lemma ensureConfigSync_integrity:
  "sessionIntegrity (fst (snd (ensureConfigSync P domain pinHash env n))) \<Longrightarrow> sessionIntegrity n"
  by (auto simp: ensureConfigSync_def installInterceptorIfNeeded_def Let_def
      split: connectionResult.splits list.splits certificate.splits if_splits)

lemma ensureConfigSync_reject_trips:
  "fst (ensureConfigSync P domain pinHash env n) = Reject code m \<Longrightarrow>
   \<not> sessionIntegrity (fst (snd (ensureConfigSync P domain pinHash env n)))"
  by (auto simp: ensureConfigSync_def installInterceptorIfNeeded_def Let_def
      split: connectionResult.splits list.splits certificate.splits if_splits)

lemma ensureConfigSync_leaf:
  assumes "connection env = ServerCertificates (X509 leaf # rest)"
  shows "ensureConfigSync P domain pinHash env n =
     (if computeSpkiHash P leaf \<noteq> pinHash
      then (Reject ''CONFIG_MISMATCH'' ''DataSync: Configuration mismatch'',
            (fst (installInterceptorIfNeeded domain pinHash n))\<lparr>sessionIntegrity := False\<rparr>,
            snd (installInterceptorIfNeeded domain pinHash n)
              @ [ConnectAttempt domain, ExtractCertificates, ComputeSpki, ComparePin])
      else if elapsedMs (startNanos env) (endNanos env) < 50
      then (Reject ''CONFIG_ERROR'' ''DataSync: Sync timing anomaly'',
            (fst (installInterceptorIfNeeded domain pinHash n))\<lparr>sessionIntegrity := False\<rparr>,
            snd (installInterceptorIfNeeded domain pinHash n)
              @ [ConnectAttempt domain, ExtractCertificates, ComputeSpki, ComparePin])
      else (Resolve True,
            (fst (installInterceptorIfNeeded domain pinHash n))
              \<lparr>validationCount := validationCount n + 1,
               lastValidationTimestamp := currentTimeMillis env\<rparr>,
            snd (installInterceptorIfNeeded domain pinHash n)
              @ [ConnectAttempt domain, ExtractCertificates, ComputeSpki, ComparePin]))"
  using assms
  by (simp add: ensureConfigSync_def installInterceptorIfNeeded_def Let_def split: prod.splits)

lemma ensureConfigSync_throws:
  assumes "connection env = ConnectionThrows msg"
  shows "ensureConfigSync P domain pinHash env n =
     (Reject ''CONFIG_ERROR'' (''DataSync: Sync failed - '' @ nullable msg),
      (fst (installInterceptorIfNeeded domain pinHash n))\<lparr>sessionIntegrity := False\<rparr>,
      snd (installInterceptorIfNeeded domain pinHash n) @ [ConnectAttempt domain])"
  using assms
  by (simp add: ensureConfigSync_def installInterceptorIfNeeded_def Let_def split: prod.splits)

lemma intercept_pinned:
  assumes "equalsIgnoreCase host (pinnedDomain ci)"
  shows "fst (intercept P ci host (Response r)) =
     (case handshake r of
        None \<Rightarrow> IOException ''DataSync: Configuration unavailable''
      | Some [] \<Rightarrow> IOException ''DataSync: Configuration missing''
      | Some (OtherCertificate # rest) \<Rightarrow> IOException ''DataSync: Configuration format error''
      | Some (X509 leaf # rest) \<Rightarrow>
          (if computeSpkiHash P leaf \<noteq> pinnedHash ci
           then IOException ''DataSync: Configuration mismatch'' else Response r))"
  using assms
  by (simp add: intercept_def split: option.splits list.splits certificate.splits)

lemma fetchGuarded_native:
  "DataSyncManager (fst (snd (fetchGuarded P url env w ev))) = DataSyncManager w"
  by (auto simp: fetchGuarded_def Let_def split: prod.splits sum.splits)

lemma fetchGuarded_intercepted:
  assumes "DataSyncManager w = Some n" and "clientFactory n = Some ci"
    and "fst (intercept P ci (requestHost env) (proceeded env)) = IOException m"
  shows "fst (fetchGuarded P url env w ev) = Inl (JsError (rejectionMessage P m)) \<and>
         fst (snd (fetchGuarded P url env w ev)) =
           (if mentionsDataSync (JsError (rejectionMessage P m))
            then w\<lparr>sessionCompromised := True\<rparr> else w)"
  using assms
  by (auto simp: fetchGuarded_def fetch_def Let_def split: prod.splits)

lemma secureFetch_flag:
  "sessionCompromised w \<Longrightarrow> sessionCompromised (fst (snd (secureFetch P cfg url env w)))"
  by (simp add: secureFetch_def)

lemma secureFetch_native:
  "nativeCompromised w \<Longrightarrow> nativeCompromised (fst (snd (secureFetch P cfg url env w)))"
proof (cases "sessionCompromised w")
  case True
  assume "nativeCompromised w"
  with True show ?thesis by (simp add: secureFetch_def)
next
  case False
  assume nc: "nativeCompromised w"
  then obtain n where n: "DataSyncManager w = Some n" "\<not> sessionIntegrity n"
    by (auto simp: nativeCompromised_def split: option.splits)
  obtain pr n' ev where e: "ensureConfigSync P (orElse (SSL_PIN_DOMAIN cfg) ''vulnbank.org'')
      (orElse (SSL_PIN_HASH_1 cfg) '''') (sync env) n = (pr, n', ev)"
    by (cases "ensureConfigSync P (orElse (SSL_PIN_DOMAIN cfg) ''vulnbank.org'')
      (orElse (SSL_PIN_HASH_1 cfg) '''') (sync env) n") auto
  have n': "\<not> sessionIntegrity n'"
    using ensureConfigSync_integrity[of P "orElse (SSL_PIN_DOMAIN cfg) ''vulnbank.org''"
        "orElse (SSL_PIN_HASH_1 cfg) []" "sync env" n] e n(2) by auto
  show ?thesis using False n e n'
    by (auto simp: secureFetch_def Let_def nativeCompromised_def fetchGuarded_native
        split: promise.splits)
qed

lemma secureFetch_rejected:
  assumes "\<not> sessionCompromised w" and "DataSyncManager w = Some n"
    and "ensureConfigSync P (orElse (SSL_PIN_DOMAIN cfg) ''vulnbank.org'')
           (orElse (SSL_PIN_HASH_1 cfg) []) (sync env) n = (Reject code msg, n', ev)"
  shows "secureFetch P cfg url env w =
     (Inl (JsError (Some (''DataSync: Configuration sync failed - '' @ rejectionText msg))),
      w\<lparr>DataSyncManager := Some n', sessionCompromised := True\<rparr>,
      CallEnsureConfigSync (orElse (SSL_PIN_DOMAIN cfg) ''vulnbank.org'')
        (orElse (SSL_PIN_HASH_1 cfg) []) # ev)"
  using assms by (simp add: secureFetch_def Let_def)

lemma secureFetch_validated:
  assumes "\<not> sessionCompromised w" and "DataSyncManager w = Some n"
    and "ensureConfigSync P (orElse (SSL_PIN_DOMAIN cfg) ''vulnbank.org'')
           (orElse (SSL_PIN_HASH_1 cfg) []) (sync env) n = (Resolve v, n', ev)"
    and "30 \<le> dateNowEnd env - dateNowStart env"
  shows "secureFetch P cfg url env w =
     fetchGuarded P url env (w\<lparr>DataSyncManager := Some n'\<rparr>)
       (CallEnsureConfigSync (orElse (SSL_PIN_DOMAIN cfg) ''vulnbank.org'')
          (orElse (SSL_PIN_HASH_1 cfg) []) # ev)"
  using assms by (simp add: secureFetch_def Let_def)

lemma secureFetch_too_fast:
  assumes "\<not> sessionCompromised w" and "DataSyncManager w = Some n"
    and "ensureConfigSync P (orElse (SSL_PIN_DOMAIN cfg) ''vulnbank.org'')
           (orElse (SSL_PIN_HASH_1 cfg) []) (sync env) n = (Resolve v, n', ev)"
    and "dateNowEnd env - dateNowStart env < 30"
  shows "secureFetch P cfg url env w =
     (Inl (JsError (Some ''DataSync: Session integrity lost'')),
      w\<lparr>DataSyncManager := Some n', sessionCompromised := True\<rparr>,
      CallEnsureConfigSync (orElse (SSL_PIN_DOMAIN cfg) ''vulnbank.org'')
        (orElse (SSL_PIN_HASH_1 cfg) []) # ev)"
  using assms by (simp add: secureFetch_def Let_def)

lemma secureFetch_rejected_flags:
  assumes "\<not> sessionCompromised w" and "DataSyncManager w = Some n"
    and "ensureConfigSync P (orElse (SSL_PIN_DOMAIN cfg) ''vulnbank.org'')
           (orElse (SSL_PIN_HASH_1 cfg) []) (sync env) n = (Reject code msg, n', ev)"
    and "msg \<noteq> []"
  shows "fst (secureFetch P cfg url env w) =
           Inl (JsError (Some (''DataSync: Configuration sync failed - '' @ msg))) \<and>
         sessionCompromised (fst (snd (secureFetch P cfg url env w))) \<and>
         nativeCompromised (fst (snd (secureFetch P cfg url env w)))"
  using secureFetch_rejected[OF assms(1,2,3), of url] assms(3,4)
    ensureConfigSync_reject_trips[of P "orElse (SSL_PIN_DOMAIN cfg) ''vulnbank.org''"
      "orElse (SSL_PIN_HASH_1 cfg) []" "sync env" n code msg]
  by (simp add: rejectionText_def nativeCompromised_def)

lemma secureFetch_interceptor_rejects:
  assumes "\<not> sessionCompromised w" and "DataSyncManager w = Some n"
    and "ensureConfigSync P (orElse (SSL_PIN_DOMAIN cfg) ''vulnbank.org'')
           (orElse (SSL_PIN_HASH_1 cfg) []) (sync env) n = (Resolve v, n', ev)"
    and "30 \<le> dateNowEnd env - dateNowStart env"
    and "clientFactory n' = Some ci"
    and "fst (intercept P ci (requestHost env) (proceeded env)) = IOException m"
  shows "fst (secureFetch P cfg url env w) = Inl (JsError (rejectionMessage P m)) \<and>
         fst (snd (secureFetch P cfg url env w)) =
           (if mentionsDataSync (JsError (rejectionMessage P m))
            then w\<lparr>DataSyncManager := Some n', sessionCompromised := True\<rparr>
            else w\<lparr>DataSyncManager := Some n'\<rparr>)"
proof -
  have "DataSyncManager (w\<lparr>DataSyncManager := Some n'\<rparr>) = Some n'" by simp
  from fetchGuarded_intercepted[OF this assms(5,6)]
    secureFetch_validated[OF assms(1,2,3,4)]
  show ?thesis by simp
qed

lemma secureFetch_error_flag:
  assumes "fst (secureFetch P cfg url env w) = Inl e"
  shows "sessionCompromised (fst (snd (secureFetch P cfg url env w))) = mentionsDataSync e"
proof (cases "sessionCompromised w")
  case True
  with assms show ?thesis by (auto simp: secureFetch_def mentionsDataSync_def)
next
  case False
  have g: "\<And>wA ev. \<not> sessionCompromised wA \<Longrightarrow> fst (fetchGuarded P url env wA ev) = Inl e \<Longrightarrow>
     sessionCompromised (fst (snd (fetchGuarded P url env wA ev))) = mentionsDataSync e"
    by (auto simp: fetchGuarded_def Let_def split: prod.splits sum.splits)
  show ?thesis
  proof (cases "DataSyncManager w")
    case None
    with False assms g[of w "[]"] show ?thesis by (simp add: secureFetch_def Let_def)
  next
    case (Some n)
    obtain pr n' ev where e: "ensureConfigSync P (orElse (SSL_PIN_DOMAIN cfg) ''vulnbank.org'')
        (orElse (SSL_PIN_HASH_1 cfg) []) (sync env) n = (pr, n', ev)"
      by (cases "ensureConfigSync P (orElse (SSL_PIN_DOMAIN cfg) ''vulnbank.org'')
        (orElse (SSL_PIN_HASH_1 cfg) []) (sync env) n") auto
    show ?thesis
    proof (cases pr)
      case (Reject code msg)
      with secureFetch_rejected[OF False Some, of P cfg env code msg n' ev url] e assms
      show ?thesis by (auto simp: mentionsDataSync_def)
    next
      case (Resolve v)
      show ?thesis
      proof (cases "dateNowEnd env - dateNowStart env < 30")
        case True
        with secureFetch_too_fast[OF False Some, of P cfg env v n' ev url] e Resolve assms
        show ?thesis by (auto simp: mentionsDataSync_def)
      next
        case slow: False
        then have "30 \<le> dateNowEnd env - dateNowStart env" by simp
        from secureFetch_validated[OF False Some _ this, of P cfg v n' ev url] e Resolve
        have "secureFetch P cfg url env w =
           fetchGuarded P url env (w\<lparr>DataSyncManager := Some n'\<rparr>)
             (CallEnsureConfigSync (orElse (SSL_PIN_DOMAIN cfg) ''vulnbank.org'')
                (orElse (SSL_PIN_HASH_1 cfg) []) # ev)" by simp
        with assms False g[of "w\<lparr>DataSyncManager := Some n'\<rparr>"] show ?thesis by simp
      qed
    qed
  qed
qed

lemma decoy_native:
  "decoy d (validateCertificate dm c) n = (r, n', ev) \<Longrightarrow> n' = n"
  "decoy d checkSSLPinning n = (r, n', ev) \<Longrightarrow> n' = n"
  "decoy d verifyCertificateChain n = (r, n', ev) \<Longrightarrow> n' = n"
  by (auto simp: decoy_def validateCertificate_def checkSSLPinning_def verifyCertificateChain_def
      split: decoys.splits connectionResult.splits)

lemma step_flag:
  "sessionCompromised w \<Longrightarrow> sessionCompromised (snd (step P cfg d op w))"
proof (cases op)
  case (SecureFetch url env)
  assume "sessionCompromised w"
  from secureFetch_flag[OF this, of P cfg url env] SecureFetch show ?thesis
    by (auto simp: step_def Let_def split: prod.splits)
qed (auto simp: step_def callNative_def Let_def split: option.splits prod.splits)

lemma step_native:
  "nativeCompromised w \<Longrightarrow> nativeCompromised (snd (step P cfg d op w))"
proof (cases op)
  case (SecureFetch url env)
  assume "nativeCompromised w"
  from secureFetch_native[OF this, of P cfg url env] SecureFetch show ?thesis
    by (auto simp: step_def Let_def split: prod.splits)
next
  case (EnsureConfigSync domain pinHash env)
  assume "nativeCompromised w"
  then show ?thesis using EnsureConfigSync ensureConfigSync_integrity[of P domain pinHash env]
    by (auto simp: step_def callNative_def nativeCompromised_def Let_def
        split: option.splits prod.splits)
qed (auto simp: step_def callNative_def nativeCompromised_def Let_def getConnectionMetrics_def
      split: option.splits prod.splits dest: decoy_native)

lemma step_request_world: "snd (step P cfg d (Request host p) w) = w"
  by (simp add: step_def)

lemma step_not_decoy:
  "\<not> isDecoy op \<Longrightarrow> step P cfg Bypassed op w = step P cfg Original op w"
  by (cases op) (simp_all add: step_def isDecoy_def)

lemma step_decoy_world: "isDecoy op \<Longrightarrow> snd (step P cfg d op w) = w"
  by (cases op)
     (auto simp: step_def isDecoy_def callNative_def Let_def world_same_native
       split: option.splits prod.splits dest: decoy_native)

lemma step_decoy_reads_nothing:
  "isDecoy op \<Longrightarrow> DataSyncManager w \<noteq> None \<Longrightarrow> DataSyncManager w' \<noteq> None \<Longrightarrow>
   fst (step P cfg d op w) = fst (step P cfg d op w')"
  by (cases op; cases d)
     (auto simp: step_def isDecoy_def callNative_def Let_def decoy_def validateCertificate_def
        checkSSLPinning_def verifyCertificateChain_def
       split: option.splits prod.splits connectionResult.splits)

lemma step_world_decoys: "snd (step P cfg Bypassed op w) = snd (step P cfg Original op w)"
  by (cases "isDecoy op") (simp_all add: step_not_decoy step_decoy_world)

lemma run_decoys:
  "snd (run P cfg Bypassed ops w) = snd (run P cfg Original ops w) \<and>
   observed ops (fst (run P cfg Bypassed ops w)) = observed ops (fst (run P cfg Original ops w))"
proof (induction ops arbitrary: w)
  case Nil
  show ?case by (simp add: observed_def)
next
  case (Cons op ops)
  obtain o1 wB where s1: "step P cfg Bypassed op w = (o1, wB)"
    by (cases "step P cfg Bypassed op w") auto
  obtain o2 w2 where s2: "step P cfg Original op w = (o2, w2)"
    by (cases "step P cfg Original op w") auto
  have w: "wB = w2" using step_world_decoys[of P cfg op w] s1 s2 by simp
  have o: "\<not> isDecoy op \<Longrightarrow> o1 = o2" using step_not_decoy[of op P cfg w] s1 s2 by simp
  from Cons.IH[of w2] w o s1 s2 show ?case
    by (auto simp: Let_def observed_def split: prod.splits)
qed

text \<open>The definitions to unfold when a sample input is evaluated.\<close>

lemmas sample_defs =
  samplePlatform_def opaquePlatform_def certA_def certB_def sampleConfig_def sampleSync_def
  sampleEnv_def trippedWorld_def installedNative_def initialWorld_def initialNative_def
  splitEnv_def validatedNative_def mismatchEnv_def

lemmas code_defs =
  secureFetch_def fetchGuarded_def fetch_def intercept_def ensureConfigSync_def
  installInterceptorIfNeeded_def computeSpkiHash_def orElse_def rejectionText_def
  mentionsDataSync_def elapsedMs_def equalsIgnoreCase_def lowercaseChar_def nullable_def
  step_def callNative_def decoy_def Let_def

lemma sample_validates:
  "ensureConfigSync samplePlatform ''bank.test'' ''AAAA'' sampleSync initialNative =
     (Resolve True, validatedNative,
      [InstallInterceptor ''bank.test'' ''AAAA'', ConnectAttempt ''bank.test'',
       ExtractCertificates, ComputeSpki, ComparePin])"
  by (simp add: sample_defs code_defs)

section \<open>The latch\<close>

text \<open>
  Claim C1. Both flags are one-way latches. Whatever calls follow (\<open>secureFetch\<close>,
  \<open>ensureConfigSync\<close>, requests through the interceptor, decoys, metrics reads), and whatever
  the network, the clocks and the platform do during them: once \<open>sessionCompromised\<close> is true
  it stays true, and once \<open>sessionIntegrity\<close> is false it stays false. Tripping a flag that is
  already tripped leaves it tripped.
\<close>

theorem session_integrity_latch:
  "(sessionCompromised w \<longrightarrow> sessionCompromised (snd (run P cfg d ops w))) \<and>
   (nativeCompromised w \<longrightarrow> nativeCompromised (snd (run P cfg d ops w)))"
proof (induction ops arbitrary: w)
  case Nil
  show ?case by simp
next
  case (Cons op ops)
  obtain out w' where s: "step P cfg d op w = (out, w')" by (cases "step P cfg d op w") auto
  have a: "sessionCompromised w \<Longrightarrow> sessionCompromised w'"
    using step_flag[of w P cfg d op] s by simp
  have b: "nativeCompromised w \<Longrightarrow> nativeCompromised w'"
    using step_native[of w P cfg d op] s by simp
  from Cons.IH[of w'] a b s show ?case
    by (auto simp: Let_def split: prod.splits)
qed

theorem session_integrity_latch_witness:
  "sessionCompromised trippedWorld \<and> nativeCompromised trippedWorld \<and>
   sessionCompromised
     (snd (run samplePlatform sampleConfig Original
        [SecureFetch ''https://bank.test/login'' sampleEnv,
         EnsureConfigSync ''bank.test'' ''AAAA'' sampleSync,
         Request ''bank.test'' (proceeded sampleEnv),
         CheckSSLPinning, GetConnectionMetrics] trippedWorld)) \<and>
   nativeCompromised
     (snd (run samplePlatform sampleConfig Original
        [SecureFetch ''https://bank.test/login'' sampleEnv,
         EnsureConfigSync ''bank.test'' ''AAAA'' sampleSync,
         Request ''bank.test'' (proceeded sampleEnv),
         CheckSSLPinning, GetConnectionMetrics] trippedWorld))"
  using session_integrity_latch [of trippedWorld samplePlatform sampleConfig Original
      "[SecureFetch ''https://bank.test/login'' sampleEnv,
        EnsureConfigSync ''bank.test'' ''AAAA'' sampleSync,
        Request ''bank.test'' (proceeded sampleEnv),
        CheckSSLPinning, GetConnectionMetrics]"]
  by (simp add: trippedWorld_def nativeCompromised_def)

section \<open>Refusal once compromised\<close>

text \<open>
  Claim C2. When \<open>sessionCompromised\<close> is set, \<open>secureFetch\<close> throws the session-integrity
  error at once: the state is unchanged and no call is made, neither \<open>ensureConfigSync\<close> nor
  \<open>fetch\<close>, whatever certificate the server would have shown.
\<close>

theorem secureFetch_refuses_when_compromised:
  "sessionCompromised w \<Longrightarrow>
   secureFetch P cfg url env w =
     (Inl (JsError (Some ''DataSync: Session integrity lost'')), w, [])"
  by (simp add: secureFetch_def)

theorem secureFetch_refuses_when_compromised_witness:
  "sessionCompromised trippedWorld \<and>
   secureFetch samplePlatform sampleConfig ''https://bank.test/login'' sampleEnv trippedWorld =
     (Inl (JsError (Some ''DataSync: Session integrity lost'')), trippedWorld, [])"
  using secureFetch_refuses_when_compromised [of trippedWorld samplePlatform sampleConfig
      "''https://bank.test/login''" sampleEnv]
  by (simp add: trippedWorld_def)

section \<open>Pin mismatch\<close>

text \<open>
  Claim C3, as the code has it. A leaf whose SPKI hash differs from the pin makes
  \<open>ensureConfigSync\<close> reject with \<open>CONFIG_MISMATCH\<close> and set \<open>sessionIntegrity\<close> to false, and
  \<open>secureFetch\<close> then throws and sets \<open>sessionCompromised\<close>. On a request to the pinned
  domain the interceptor throws the mismatch \<open>IOException\<close> and writes no flag: the state
  after the request is the state before it. When such a request is the fetch of
  \<open>secureFetch\<close>, the rejection is rethrown, \<open>sessionCompromised\<close> is set exactly when the
  message of the rejected fetch includes \<open>DataSync\<close>, and the native module is as
  \<open>ensureConfigSync\<close> left it.
\<close>

theorem pin_mismatch_is_rejected:
  "(connection (sync env) = ServerCertificates (X509 leaf # rest) \<and>
    computeSpkiHash P leaf \<noteq> pinHash \<longrightarrow>
      fst (ensureConfigSync P domain pinHash (sync env) n) =
        Reject ''CONFIG_MISMATCH'' ''DataSync: Configuration mismatch'' \<and>
      \<not> sessionIntegrity (fst (snd (ensureConfigSync P domain pinHash (sync env) n)))) \<and>
   (connection (sync env) = ServerCertificates (X509 leaf # rest) \<and>
    computeSpkiHash P leaf \<noteq> orElse (SSL_PIN_HASH_1 cfg) [] \<and>
    \<not> sessionCompromised w \<and> DataSyncManager w = Some n \<longrightarrow>
      fst (secureFetch P cfg url env w) =
        Inl (JsError (Some
          ''DataSync: Configuration sync failed - DataSync: Configuration mismatch'')) \<and>
      sessionCompromised (fst (snd (secureFetch P cfg url env w))) \<and>
      nativeCompromised (fst (snd (secureFetch P cfg url env w)))) \<and>
   (equalsIgnoreCase host (pinnedDomain ci) \<and> handshake r = Some (X509 leaf' # rest') \<and>
    computeSpkiHash P leaf' \<noteq> pinnedHash ci \<longrightarrow>
      fst (intercept P ci host (Response r)) = IOException ''DataSync: Configuration mismatch'' \<and>
      snd (step P cfg d (Request host (Response r)) wA) = wA) \<and>
   (\<not> sessionCompromised wB \<and> DataSyncManager wB = Some nB \<and>
    ensureConfigSync P (orElse (SSL_PIN_DOMAIN cfg) ''vulnbank.org'')
      (orElse (SSL_PIN_HASH_1 cfg) []) (sync envB) nB = (Resolve v, n', ev) \<and>
    30 \<le> dateNowEnd envB - dateNowStart envB \<and> clientFactory n' = Some ci \<and>
    equalsIgnoreCase (requestHost envB) (pinnedDomain ci) \<and> proceeded envB = Response r \<and>
    handshake r = Some (X509 leaf' # rest') \<and> computeSpkiHash P leaf' \<noteq> pinnedHash ci \<longrightarrow>
      fst (secureFetch P cfg url envB wB) =
        Inl (JsError (rejectionMessage P ''DataSync: Configuration mismatch'')) \<and>
      fst (snd (secureFetch P cfg url envB wB)) =
        (if mentionsDataSync (JsError (rejectionMessage P ''DataSync: Configuration mismatch''))
         then wB\<lparr>DataSyncManager := Some n', sessionCompromised := True\<rparr>
         else wB\<lparr>DataSyncManager := Some n'\<rparr>))"
proof (intro conjI impI)
  assume a: "connection (sync env) = ServerCertificates (X509 leaf # rest) \<and>
    computeSpkiHash P leaf \<noteq> pinHash"
  from a ensureConfigSync_leaf[of "sync env" leaf rest P domain pinHash n]
  show "fst (ensureConfigSync P domain pinHash (sync env) n) =
        Reject ''CONFIG_MISMATCH'' ''DataSync: Configuration mismatch''" by simp
  from a ensureConfigSync_leaf[of "sync env" leaf rest P domain pinHash n]
  show "\<not> sessionIntegrity (fst (snd (ensureConfigSync P domain pinHash (sync env) n)))" by simp
next
  assume a: "connection (sync env) = ServerCertificates (X509 leaf # rest) \<and>
    computeSpkiHash P leaf \<noteq> orElse (SSL_PIN_HASH_1 cfg) [] \<and>
    \<not> sessionCompromised w \<and> DataSyncManager w = Some n"
  have e: "ensureConfigSync P (orElse (SSL_PIN_DOMAIN cfg) ''vulnbank.org'')
      (orElse (SSL_PIN_HASH_1 cfg) []) (sync env) n =
      (Reject ''CONFIG_MISMATCH'' ''DataSync: Configuration mismatch'',
       (fst (installInterceptorIfNeeded (orElse (SSL_PIN_DOMAIN cfg) ''vulnbank.org'')
          (orElse (SSL_PIN_HASH_1 cfg) []) n))\<lparr>sessionIntegrity := False\<rparr>,
       snd (installInterceptorIfNeeded (orElse (SSL_PIN_DOMAIN cfg) ''vulnbank.org'')
          (orElse (SSL_PIN_HASH_1 cfg) []) n)
         @ [ConnectAttempt (orElse (SSL_PIN_DOMAIN cfg) ''vulnbank.org''), ExtractCertificates,
            ComputeSpki, ComparePin])"
    using a ensureConfigSync_leaf[of "sync env" leaf rest P] by simp
  have f: "fst (secureFetch P cfg url env w) =
           Inl (JsError (Some (''DataSync: Configuration sync failed - ''
                  @ ''DataSync: Configuration mismatch''))) \<and>
         sessionCompromised (fst (snd (secureFetch P cfg url env w))) \<and>
         nativeCompromised (fst (snd (secureFetch P cfg url env w)))"
    using a by (intro secureFetch_rejected_flags[OF _ _ e]) simp_all
  from f show "fst (secureFetch P cfg url env w) =
        Inl (JsError (Some
          ''DataSync: Configuration sync failed - DataSync: Configuration mismatch''))" by simp
  from f show "sessionCompromised (fst (snd (secureFetch P cfg url env w)))" by simp
  from f show "nativeCompromised (fst (snd (secureFetch P cfg url env w)))" by simp
next
  assume a: "equalsIgnoreCase host (pinnedDomain ci) \<and> handshake r = Some (X509 leaf' # rest') \<and>
    computeSpkiHash P leaf' \<noteq> pinnedHash ci"
  then show "fst (intercept P ci host (Response r)) = IOException ''DataSync: Configuration mismatch''"
    by (simp add: intercept_pinned)
  show "snd (step P cfg d (Request host (Response r)) wA) = wA" by (rule step_request_world)
next
  assume a: "\<not> sessionCompromised wB \<and> DataSyncManager wB = Some nB \<and>
    ensureConfigSync P (orElse (SSL_PIN_DOMAIN cfg) ''vulnbank.org'')
      (orElse (SSL_PIN_HASH_1 cfg) []) (sync envB) nB = (Resolve v, n', ev) \<and>
    30 \<le> dateNowEnd envB - dateNowStart envB \<and> clientFactory n' = Some ci \<and>
    equalsIgnoreCase (requestHost envB) (pinnedDomain ci) \<and> proceeded envB = Response r \<and>
    handshake r = Some (X509 leaf' # rest') \<and> computeSpkiHash P leaf' \<noteq> pinnedHash ci"
  then have i: "fst (intercept P ci (requestHost envB) (proceeded envB)) =
      IOException ''DataSync: Configuration mismatch''"
    by (simp add: intercept_pinned)
  have s: "fst (secureFetch P cfg url envB wB) =
        Inl (JsError (rejectionMessage P ''DataSync: Configuration mismatch'')) \<and>
      fst (snd (secureFetch P cfg url envB wB)) =
        (if mentionsDataSync (JsError (rejectionMessage P ''DataSync: Configuration mismatch''))
         then wB\<lparr>DataSyncManager := Some n', sessionCompromised := True\<rparr>
         else wB\<lparr>DataSyncManager := Some n'\<rparr>)"
  proof -
    from a have a1: "\<not> sessionCompromised wB" and a2: "DataSyncManager wB = Some nB"
      and a3: "ensureConfigSync P (orElse (SSL_PIN_DOMAIN cfg) ''vulnbank.org'')
        (orElse (SSL_PIN_HASH_1 cfg) []) (sync envB) nB = (Resolve v, n', ev)"
      and a4: "30 \<le> dateNowEnd envB - dateNowStart envB" and a5: "clientFactory n' = Some ci"
      by simp_all
    show ?thesis by (rule secureFetch_interceptor_rejects[OF a1 a2 a3 a4 a5 i])
  qed
  from s show "fst (secureFetch P cfg url envB wB) =
        Inl (JsError (rejectionMessage P ''DataSync: Configuration mismatch''))" by simp
  from s show "fst (snd (secureFetch P cfg url envB wB)) =
        (if mentionsDataSync (JsError (rejectionMessage P ''DataSync: Configuration mismatch''))
         then wB\<lparr>DataSyncManager := Some n', sessionCompromised := True\<rparr>
         else wB\<lparr>DataSyncManager := Some n'\<rparr>)" by simp
qed

theorem pin_mismatch_is_rejected_witness:
  "connection (sync mismatchEnv) =
     ServerCertificates (X509 \<lparr>publicKeyEncoded = [1, 1, 1, 1]\<rparr> # []) \<and>
   computeSpkiHash samplePlatform \<lparr>publicKeyEncoded = [1, 1, 1, 1]\<rparr> \<noteq>
     orElse (SSL_PIN_HASH_1 sampleConfig) [] \<and>
   \<not> sessionCompromised initialWorld \<and> DataSyncManager initialWorld = Some initialNative \<and>
   fst (ensureConfigSync samplePlatform ''bank.test'' (orElse (SSL_PIN_HASH_1 sampleConfig) [])
          (sync mismatchEnv) initialNative) =
     Reject ''CONFIG_MISMATCH'' ''DataSync: Configuration mismatch'' \<and>
   \<not> sessionIntegrity (fst (snd (ensureConfigSync samplePlatform ''bank.test''
          (orElse (SSL_PIN_HASH_1 sampleConfig) []) (sync mismatchEnv) initialNative))) \<and>
   fst (secureFetch samplePlatform sampleConfig ''https://bank.test/login'' mismatchEnv
          initialWorld) =
     Inl (JsError (Some
       ''DataSync: Configuration sync failed - DataSync: Configuration mismatch'')) \<and>
   sessionCompromised (fst (snd (secureFetch samplePlatform sampleConfig
      ''https://bank.test/login'' mismatchEnv initialWorld))) \<and>
   nativeCompromised (fst (snd (secureFetch samplePlatform sampleConfig
      ''https://bank.test/login'' mismatchEnv initialWorld))) \<and>
   equalsIgnoreCase ''Bank.Test'' (pinnedDomain \<lparr>pinnedDomain = ''bank.test'', pinnedHash = ''AAAA''\<rparr>) \<and>
   fst (intercept samplePlatform \<lparr>pinnedDomain = ''bank.test'', pinnedHash = ''AAAA''\<rparr>
          ''Bank.Test''
          (Response \<lparr>handshake = Some [X509 \<lparr>publicKeyEncoded = [1, 1, 1, 1]\<rparr>], status = 200\<rparr>)) =
     IOException ''DataSync: Configuration mismatch'' \<and>
   ensureConfigSync samplePlatform (orElse (SSL_PIN_DOMAIN sampleConfig) ''vulnbank.org'')
     (orElse (SSL_PIN_HASH_1 sampleConfig) []) (sync splitEnv) initialNative =
     (Resolve True, validatedNative,
      [InstallInterceptor ''bank.test'' ''AAAA'', ConnectAttempt ''bank.test'',
       ExtractCertificates, ComputeSpki, ComparePin]) \<and>
   30 \<le> dateNowEnd splitEnv - dateNowStart splitEnv \<and>
   clientFactory validatedNative = Some \<lparr>pinnedDomain = ''bank.test'', pinnedHash = ''AAAA''\<rparr> \<and>
   equalsIgnoreCase (requestHost splitEnv) ''bank.test'' \<and>
   proceeded splitEnv =
     Response \<lparr>handshake = Some [X509 \<lparr>publicKeyEncoded = [1, 1, 1, 1]\<rparr>], status = 200\<rparr> \<and>
   fst (secureFetch samplePlatform sampleConfig ''https://bank.test/login'' splitEnv
          initialWorld) = Inl (JsError (Some ''DataSync: Configuration mismatch'')) \<and>
   fst (snd (secureFetch samplePlatform sampleConfig ''https://bank.test/login'' splitEnv
          initialWorld)) =
     initialWorld\<lparr>DataSyncManager := Some validatedNative, sessionCompromised := True\<rparr>"
proof -
  have h12: "connection (sync mismatchEnv) =
       ServerCertificates (X509 \<lparr>publicKeyEncoded = [1, 1, 1, 1]\<rparr> # []) \<and>
     computeSpkiHash samplePlatform \<lparr>publicKeyEncoded = [1, 1, 1, 1]\<rparr> \<noteq>
       orElse (SSL_PIN_HASH_1 sampleConfig) [] \<and>
     \<not> sessionCompromised initialWorld \<and> DataSyncManager initialWorld = Some initialNative"
    by (simp add: sample_defs code_defs)
  have h3: "equalsIgnoreCase ''Bank.Test''
       (pinnedDomain \<lparr>pinnedDomain = ''bank.test'', pinnedHash = ''AAAA''\<rparr>) \<and>
     handshake \<lparr>handshake = Some [X509 \<lparr>publicKeyEncoded = [1, 1, 1, 1]\<rparr>], status = 200\<rparr> =
       Some (X509 \<lparr>publicKeyEncoded = [1, 1, 1, 1]\<rparr> # []) \<and>
     computeSpkiHash samplePlatform \<lparr>publicKeyEncoded = [1, 1, 1, 1]\<rparr> \<noteq>
       pinnedHash \<lparr>pinnedDomain = ''bank.test'', pinnedHash = ''AAAA''\<rparr>"
    by (simp add: sample_defs code_defs)
  have h4: "\<not> sessionCompromised initialWorld \<and> DataSyncManager initialWorld = Some initialNative \<and>
    ensureConfigSync samplePlatform (orElse (SSL_PIN_DOMAIN sampleConfig) ''vulnbank.org'')
      (orElse (SSL_PIN_HASH_1 sampleConfig) []) (sync splitEnv) initialNative =
      (Resolve True, validatedNative,
       [InstallInterceptor ''bank.test'' ''AAAA'', ConnectAttempt ''bank.test'',
        ExtractCertificates, ComputeSpki, ComparePin]) \<and>
    30 \<le> dateNowEnd splitEnv - dateNowStart splitEnv \<and>
    clientFactory validatedNative = Some \<lparr>pinnedDomain = ''bank.test'', pinnedHash = ''AAAA''\<rparr> \<and>
    equalsIgnoreCase (requestHost splitEnv)
      (pinnedDomain \<lparr>pinnedDomain = ''bank.test'', pinnedHash = ''AAAA''\<rparr>) \<and>
    proceeded splitEnv =
      Response \<lparr>handshake = Some [X509 \<lparr>publicKeyEncoded = [1, 1, 1, 1]\<rparr>], status = 200\<rparr>"
    using sample_validates by (simp add: sample_defs code_defs)
  have m: "mentionsDataSync (JsError (Some ''DataSync: Configuration mismatch'')) \<and>
      rejectionMessage samplePlatform ''DataSync: Configuration mismatch'' =
        Some ''DataSync: Configuration mismatch''"
    by (simp add: mentionsDataSync_def samplePlatform_def)
  from pin_mismatch_is_rejected [where env = mismatchEnv
      and leaf = "\<lparr>publicKeyEncoded = [1, 1, 1, 1]\<rparr>" and rest = "[]" and P = samplePlatform
      and pinHash = "orElse (SSL_PIN_HASH_1 sampleConfig) []" and domain = "''bank.test''"
      and n = initialNative and cfg = sampleConfig and w = initialWorld
      and url = "''https://bank.test/login''" and host = "''Bank.Test''"
      and ci = "\<lparr>pinnedDomain = ''bank.test'', pinnedHash = ''AAAA''\<rparr>"
      and r = "\<lparr>handshake = Some [X509 \<lparr>publicKeyEncoded = [1, 1, 1, 1]\<rparr>], status = 200\<rparr>"
      and leaf' = "\<lparr>publicKeyEncoded = [1, 1, 1, 1]\<rparr>" and rest' = "[]"
      and wB = initialWorld and nB = initialNative and envB = splitEnv and v = True
      and n' = validatedNative and d = Original and wA = initialWorld
      and ev = "[InstallInterceptor ''bank.test'' ''AAAA'', ConnectAttempt ''bank.test'',
                 ExtractCertificates, ComputeSpki, ComparePin]"] h12 h3 h4 m
  show ?thesis by simp
qed

text \<open>
  The interceptor path does not by itself trip a flag. A mismatching leaf on the primary
  transport fails the request and leaves both flags untouched; through \<open>secureFetch\<close>, on a
  platform whose failed fetch carries the message \<open>Network request failed\<close>, neither flag is
  set; and even where the interceptor's message reaches JavaScript, only \<open>sessionCompromised\<close>
  is set, while the metrics still report \<open>sessionIntegrity\<close> as true.
\<close>

theorem pin_mismatch_interceptor_counterexample:
  "step samplePlatform sampleConfig Original
     (Request ''bank.test'' (Response \<lparr>handshake = Some [certB], status = 200\<rparr>))
     (initialWorld\<lparr>DataSyncManager := Some installedNative\<rparr>) =
     (Transported (IOException ''DataSync: Configuration mismatch''),
      initialWorld\<lparr>DataSyncManager := Some installedNative\<rparr>) \<and>
   \<not> compromised (initialWorld\<lparr>DataSyncManager := Some installedNative\<rparr>) \<and>
   fst (secureFetch opaquePlatform sampleConfig ''https://bank.test/login'' splitEnv initialWorld) =
     Inl (JsError (Some ''Network request failed'')) \<and>
   fst (snd (secureFetch opaquePlatform sampleConfig ''https://bank.test/login'' splitEnv
     initialWorld)) = \<lparr>sessionCompromised = False, DataSyncManager = Some validatedNative\<rparr> \<and>
   \<not> compromised \<lparr>sessionCompromised = False, DataSyncManager = Some validatedNative\<rparr> \<and>
   fst (secureFetch samplePlatform sampleConfig ''https://bank.test/login'' splitEnv initialWorld) =
     Inl (JsError (Some ''DataSync: Configuration mismatch'')) \<and>
   fst (snd (secureFetch samplePlatform sampleConfig ''https://bank.test/login'' splitEnv
     initialWorld)) = \<lparr>sessionCompromised = True, DataSyncManager = Some validatedNative\<rparr> \<and>
   metricsSessionIntegrity (fst (getConnectionMetrics validatedNative))"
  by (simp add: sample_defs code_defs compromised_def nativeCompromised_def
      getConnectionMetrics_def)

section \<open>Matching pin\<close>

text \<open>
  Claim C4. The pin set of this client is the one pin \<open>SSL_PIN_HASH_1\<close>. When the leaf's SPKI
  hash equals it, the native elapsed time is at least 50 ms and the JavaScript elapsed time at
  least 30 ms, \<open>ensureConfigSync\<close> resolves \<open>true\<close>, adds one to \<open>validationCount\<close> (a Kotlin
  \<open>Int\<close>), records the timestamp, leaves \<open>sessionIntegrity\<close> as it was, and \<open>secureFetch\<close> goes
  on to the fetch. The comparison is equality of the whole strings: with that leaf and that
  timing, \<open>ensureConfigSync\<close> resolves \<open>true\<close> for a pin exactly when the pin is the leaf's hash.
\<close>

theorem matching_pin_validates:
  assumes "connection (sync env) = ServerCertificates (X509 leaf # rest)"
    and "computeSpkiHash P leaf = orElse (SSL_PIN_HASH_1 cfg) []"
    and "50 \<le> elapsedMs (startNanos (sync env)) (endNanos (sync env))"
    and "30 \<le> dateNowEnd env - dateNowStart env"
    and "\<not> sessionCompromised w" and "DataSyncManager w = Some n"
    and "ensureConfigSync P (orElse (SSL_PIN_DOMAIN cfg) ''vulnbank.org'')
           (orElse (SSL_PIN_HASH_1 cfg) []) (sync env) n = (pr, n', ev)"
  shows "pr = Resolve True \<and>
         validationCount n' = validationCount n + 1 \<and>
         lastValidationTimestamp n' = currentTimeMillis (sync env) \<and>
         sessionIntegrity n' = sessionIntegrity n \<and>
         secureFetch P cfg url env w =
           fetchGuarded P url env (w\<lparr>DataSyncManager := Some n'\<rparr>)
             (CallEnsureConfigSync (orElse (SSL_PIN_DOMAIN cfg) ''vulnbank.org'')
                (orElse (SSL_PIN_HASH_1 cfg) []) # ev) \<and>
         (fst (ensureConfigSync P domain pin (sync env) n) = Resolve True) =
           (pin = computeSpkiHash P leaf)"
proof -
  have e: "pr = Resolve True"
    "n' = (fst (installInterceptorIfNeeded (orElse (SSL_PIN_DOMAIN cfg) ''vulnbank.org'')
             (orElse (SSL_PIN_HASH_1 cfg) []) n))
              \<lparr>validationCount := validationCount n + 1,
               lastValidationTimestamp := currentTimeMillis (sync env)\<rparr>"
    using assms(2,3,7) ensureConfigSync_leaf[OF assms(1), of P
        "orElse (SSL_PIN_DOMAIN cfg) ''vulnbank.org''" "orElse (SSL_PIN_HASH_1 cfg) []" n]
    by auto
  have s: "secureFetch P cfg url env w =
           fetchGuarded P url env (w\<lparr>DataSyncManager := Some n'\<rparr>)
             (CallEnsureConfigSync (orElse (SSL_PIN_DOMAIN cfg) ''vulnbank.org'')
                (orElse (SSL_PIN_HASH_1 cfg) []) # ev)"
    using secureFetch_validated[OF assms(5,6) _ assms(4), of P cfg True n' ev url] assms(7) e(1)
    by simp
  have x: "(fst (ensureConfigSync P domain pin (sync env) n) = Resolve True) =
           (pin = computeSpkiHash P leaf)"
    using assms(3) ensureConfigSync_leaf[OF assms(1), of P domain pin n] by auto
  show ?thesis using e s x by (simp add: install_fields)
qed

theorem matching_pin_validates_witness:
  "connection (sync sampleEnv) = ServerCertificates (X509 \<lparr>publicKeyEncoded = [0, 0, 0, 0]\<rparr> # []) \<and>
   computeSpkiHash samplePlatform \<lparr>publicKeyEncoded = [0, 0, 0, 0]\<rparr> =
     orElse (SSL_PIN_HASH_1 sampleConfig) [] \<and>
   50 \<le> elapsedMs (startNanos (sync sampleEnv)) (endNanos (sync sampleEnv)) \<and>
   30 \<le> dateNowEnd sampleEnv - dateNowStart sampleEnv \<and>
   \<not> sessionCompromised initialWorld \<and> DataSyncManager initialWorld = Some initialNative \<and>
   ensureConfigSync samplePlatform (orElse (SSL_PIN_DOMAIN sampleConfig) ''vulnbank.org'')
     (orElse (SSL_PIN_HASH_1 sampleConfig) []) (sync sampleEnv) initialNative =
     (Resolve True, validatedNative,
      [InstallInterceptor ''bank.test'' ''AAAA'', ConnectAttempt ''bank.test'',
       ExtractCertificates, ComputeSpki, ComparePin]) \<and>
   validationCount validatedNative = validationCount initialNative + 1 \<and>
   validationCount validatedNative = 1 \<and>
   secureFetch samplePlatform sampleConfig ''https://bank.test/login'' sampleEnv initialWorld =
     fetchGuarded samplePlatform ''https://bank.test/login'' sampleEnv
       (initialWorld\<lparr>DataSyncManager := Some validatedNative\<rparr>)
       (CallEnsureConfigSync (orElse (SSL_PIN_DOMAIN sampleConfig) ''vulnbank.org'')
          (orElse (SSL_PIN_HASH_1 sampleConfig) []) #
        [InstallInterceptor ''bank.test'' ''AAAA'', ConnectAttempt ''bank.test'',
         ExtractCertificates, ComputeSpki, ComparePin]) \<and>
   fst (ensureConfigSync samplePlatform ''bank.test'' ''AAA'' (sync sampleEnv) initialNative)
     \<noteq> Resolve True \<and>
   fst (secureFetch samplePlatform sampleConfig ''https://bank.test/login'' sampleEnv
          initialWorld) = Inr \<lparr>handshake = Some [certA], status = 200\<rparr>"
proof -
  have h1: "connection (sync sampleEnv) =
      ServerCertificates (X509 \<lparr>publicKeyEncoded = [0, 0, 0, 0]\<rparr> # [])"
    by (simp add: sample_defs)
  have h2: "computeSpkiHash samplePlatform \<lparr>publicKeyEncoded = [0, 0, 0, 0]\<rparr> =
     orElse (SSL_PIN_HASH_1 sampleConfig) []"
    by (simp add: sample_defs code_defs)
  have h3: "50 \<le> elapsedMs (startNanos (sync sampleEnv)) (endNanos (sync sampleEnv))"
    by (simp add: sample_defs code_defs)
  have h4: "30 \<le> dateNowEnd sampleEnv - dateNowStart sampleEnv"
    by (simp add: sample_defs)
  have h5: "\<not> sessionCompromised initialWorld" by (simp add: sample_defs)
  have h6: "DataSyncManager initialWorld = Some initialNative" by (simp add: sample_defs)
  have h7: "ensureConfigSync samplePlatform (orElse (SSL_PIN_DOMAIN sampleConfig) ''vulnbank.org'')
     (orElse (SSL_PIN_HASH_1 sampleConfig) []) (sync sampleEnv) initialNative =
     (Resolve True, validatedNative,
      [InstallInterceptor ''bank.test'' ''AAAA'', ConnectAttempt ''bank.test'',
       ExtractCertificates, ComputeSpki, ComparePin])"
    using sample_validates by (simp add: sampleConfig_def orElse_def sampleEnv_def)
  have h8: "validationCount validatedNative = 1" by (simp add: sample_defs)
  have h9: "''AAA'' \<noteq> computeSpkiHash samplePlatform \<lparr>publicKeyEncoded = [0, 0, 0, 0]\<rparr>"
    by (simp add: sample_defs code_defs)
  have g: "fst (fetchGuarded samplePlatform ''https://bank.test/login'' sampleEnv
       (initialWorld\<lparr>DataSyncManager := Some validatedNative\<rparr>)
       (CallEnsureConfigSync (orElse (SSL_PIN_DOMAIN sampleConfig) ''vulnbank.org'')
          (orElse (SSL_PIN_HASH_1 sampleConfig) []) #
        [InstallInterceptor ''bank.test'' ''AAAA'', ConnectAttempt ''bank.test'',
         ExtractCertificates, ComputeSpki, ComparePin])) =
     Inr \<lparr>handshake = Some [certA], status = 200\<rparr>"
    by (simp add: sample_defs code_defs)
  from matching_pin_validates[OF h1 h2 h3 h4 h5 h6 h7, of "''https://bank.test/login''"
      "''bank.test''" "''AAA''"] h1 h2 h3 h4 h5 h6 h7 h8 h9 g
  show ?thesis by simp
qed

section \<open>Network failures\<close>

text \<open>
  Claim C5, as the code has it. Any exception of the dedicated verification connection makes
  \<open>ensureConfigSync\<close> reject and trips both flags, as a verification failure does, and no
  rejection of \<open>ensureConfigSync\<close> leaves \<open>sessionIntegrity\<close> true. An error of \<open>secureFetch\<close>
  leaves \<open>sessionCompromised\<close> set exactly when its message includes \<open>DataSync\<close>: every error
  the validation raises does, a failure of the request itself need not.
\<close>

theorem network_failures_and_the_flag:
  "(fst (secureFetch P cfg url env w) = Inl e \<longrightarrow>
      sessionCompromised (fst (snd (secureFetch P cfg url env w))) = mentionsDataSync e) \<and>
   (fst (ensureConfigSync P domain pinHash senv n) = Reject code m \<longrightarrow>
      \<not> sessionIntegrity (fst (snd (ensureConfigSync P domain pinHash senv n)))) \<and>
   (connection (sync env) = ConnectionThrows msg \<longrightarrow>
      fst (ensureConfigSync P domain pinHash (sync env) n) =
        Reject ''CONFIG_ERROR'' (''DataSync: Sync failed - '' @ nullable msg) \<and>
      \<not> sessionIntegrity (fst (snd (ensureConfigSync P domain pinHash (sync env) n))) \<and>
      (\<not> sessionCompromised w \<and> DataSyncManager w = Some n \<longrightarrow>
         fst (secureFetch P cfg url env w) =
           Inl (JsError (Some (''DataSync: Configuration sync failed - DataSync: Sync failed - ''
                                 @ nullable msg))) \<and>
         sessionCompromised (fst (snd (secureFetch P cfg url env w))) \<and>
         nativeCompromised (fst (snd (secureFetch P cfg url env w)))))"
proof (intro conjI impI)
  assume "fst (secureFetch P cfg url env w) = Inl e"
  then show "sessionCompromised (fst (snd (secureFetch P cfg url env w))) = mentionsDataSync e"
    by (rule secureFetch_error_flag)
next
  assume "fst (ensureConfigSync P domain pinHash senv n) = Reject code m"
  then show "\<not> sessionIntegrity (fst (snd (ensureConfigSync P domain pinHash senv n)))"
    by (rule ensureConfigSync_reject_trips)
next
  assume a: "connection (sync env) = ConnectionThrows msg"
  note e = ensureConfigSync_throws[OF a, of P _ _ n]
  show "fst (ensureConfigSync P domain pinHash (sync env) n) =
        Reject ''CONFIG_ERROR'' (''DataSync: Sync failed - '' @ nullable msg)" by (simp add: e)
  show "\<not> sessionIntegrity (fst (snd (ensureConfigSync P domain pinHash (sync env) n)))"
    by (simp add: e)
  assume b: "\<not> sessionCompromised w \<and> DataSyncManager w = Some n"
  then have b1: "\<not> sessionCompromised w" and b2: "DataSyncManager w = Some n" by simp_all
  have ne: "''DataSync: Sync failed - '' @ nullable msg \<noteq> []" by simp
  note f = secureFetch_rejected_flags[OF b1 b2 e ne, of cfg url]
  from f show "fst (secureFetch P cfg url env w) =
           Inl (JsError (Some (''DataSync: Configuration sync failed - DataSync: Sync failed - ''
                                 @ nullable msg)))" by simp
  from f show "sessionCompromised (fst (snd (secureFetch P cfg url env w)))" by simp
  from f show "nativeCompromised (fst (snd (secureFetch P cfg url env w)))" by simp
qed

theorem network_failures_and_the_flag_witness:
  "connection (sync (sampleEnv\<lparr>sync :=
      sampleSync\<lparr>connection := ConnectionThrows (Some ''Unable to resolve host'')\<rparr>\<rparr>)) =
     ConnectionThrows (Some ''Unable to resolve host'') \<and>
   \<not> sessionCompromised initialWorld \<and> DataSyncManager initialWorld = Some initialNative \<and>
   fst (ensureConfigSync samplePlatform ''bank.test'' ''AAAA''
     (sync (sampleEnv\<lparr>sync :=
        sampleSync\<lparr>connection := ConnectionThrows (Some ''Unable to resolve host'')\<rparr>\<rparr>))
     initialNative) =
     Reject ''CONFIG_ERROR'' ''DataSync: Sync failed - Unable to resolve host'' \<and>
   \<not> sessionIntegrity (fst (snd (ensureConfigSync samplePlatform ''bank.test'' ''AAAA''
     (sync (sampleEnv\<lparr>sync :=
        sampleSync\<lparr>connection := ConnectionThrows (Some ''Unable to resolve host'')\<rparr>\<rparr>))
     initialNative))) \<and>
   fst (secureFetch samplePlatform sampleConfig ''https://bank.test/login''
     (sampleEnv\<lparr>sync :=
        sampleSync\<lparr>connection := ConnectionThrows (Some ''Unable to resolve host'')\<rparr>\<rparr>)
     initialWorld) =
     Inl (JsError (Some
       ''DataSync: Configuration sync failed - DataSync: Sync failed - Unable to resolve host'')) \<and>
   sessionCompromised (fst (snd (secureFetch samplePlatform sampleConfig
     ''https://bank.test/login''
     (sampleEnv\<lparr>sync :=
        sampleSync\<lparr>connection := ConnectionThrows (Some ''Unable to resolve host'')\<rparr>\<rparr>)
     initialWorld))) =
     mentionsDataSync (JsError (Some
       ''DataSync: Configuration sync failed - DataSync: Sync failed - Unable to resolve host'')) \<and>
   nativeCompromised (fst (snd (secureFetch samplePlatform sampleConfig
     ''https://bank.test/login''
     (sampleEnv\<lparr>sync :=
        sampleSync\<lparr>connection := ConnectionThrows (Some ''Unable to resolve host'')\<rparr>\<rparr>)
     initialWorld)))"
proof -
  let ?env = "sampleEnv\<lparr>sync :=
        sampleSync\<lparr>connection := ConnectionThrows (Some ''Unable to resolve host'')\<rparr>\<rparr>"
  let ?e = "JsError (Some
       ''DataSync: Configuration sync failed - DataSync: Sync failed - Unable to resolve host'')"
  have h: "connection (sync ?env) = ConnectionThrows (Some ''Unable to resolve host'')"
    "\<not> sessionCompromised initialWorld \<and> DataSyncManager initialWorld = Some initialNative"
    by (simp_all add: sample_defs)
  note T = network_failures_and_the_flag [where P = samplePlatform and cfg = sampleConfig
      and url = "''https://bank.test/login''" and env = ?env
      and w = initialWorld and n = initialNative and domain = "''bank.test''"
      and pinHash = "''AAAA''" and msg = "Some ''Unable to resolve host''"
      and e = ?e and senv = "sync ?env" and code = "''CONFIG_ERROR''"
      and m = "''DataSync: Sync failed - Unable to resolve host''"]
  from T h have c: "fst (ensureConfigSync samplePlatform ''bank.test'' ''AAAA'' (sync ?env)
        initialNative) =
      Reject ''CONFIG_ERROR'' ''DataSync: Sync failed - Unable to resolve host''"
    "\<not> sessionIntegrity (fst (snd (ensureConfigSync samplePlatform ''bank.test'' ''AAAA''
        (sync ?env) initialNative)))"
    "fst (secureFetch samplePlatform sampleConfig ''https://bank.test/login'' ?env
        initialWorld) = Inl ?e"
    "nativeCompromised (fst (snd (secureFetch samplePlatform sampleConfig
        ''https://bank.test/login'' ?env initialWorld)))"
    by (simp_all add: nullable_def)
  from T c(3) have f: "sessionCompromised (fst (snd (secureFetch samplePlatform sampleConfig
        ''https://bank.test/login'' ?env initialWorld))) = mentionsDataSync ?e"
    by blast
  from h c f show ?thesis by simp
qed

text \<open>
  A network failure of the request itself (here a timeout of \<open>chain.proceed\<close>) after a
  successful validation: \<open>secureFetch\<close> rethrows it and neither flag is tripped.
\<close>

theorem fetch_failure_counterexample:
  "fst (secureFetch samplePlatform sampleConfig ''https://bank.test/login''
     (sampleEnv\<lparr>proceeded := IOException ''timeout''\<rparr>) initialWorld) =
     Inl (JsError (Some ''timeout'')) \<and>
   fst (snd (secureFetch samplePlatform sampleConfig ''https://bank.test/login''
     (sampleEnv\<lparr>proceeded := IOException ''timeout''\<rparr>) initialWorld)) =
     \<lparr>sessionCompromised = False, DataSyncManager = Some validatedNative\<rparr> \<and>
   \<not> compromised \<lparr>sessionCompromised = False, DataSyncManager = Some validatedNative\<rparr> \<and>
   fst (secureFetch opaquePlatform sampleConfig ''https://bank.test/login''
     (sampleEnv\<lparr>proceeded := IOException ''timeout''\<rparr>) initialWorld) =
     Inl (JsError (Some ''Network request failed'')) \<and>
   \<not> sessionCompromised (fst (snd (secureFetch opaquePlatform sampleConfig
     ''https://bank.test/login'' (sampleEnv\<lparr>proceeded := IOException ''timeout''\<rparr>)
     initialWorld)))"
  by (simp add: sample_defs code_defs compromised_def nativeCompromised_def)

section \<open>Timing floors\<close>

text \<open>
  Claim C6, as the code has it. With a matching leaf, \<open>ensureConfigSync\<close> rejects with the
  timing-anomaly error and sets \<open>sessionIntegrity\<close> to false exactly when the elapsed
  milliseconds are below 50, and \<open>secureFetch\<close> then throws and sets \<open>sessionCompromised\<close>.
  After \<open>ensureConfigSync\<close> has resolved, \<open>secureFetch\<close> trips \<open>sessionCompromised\<close> and throws
  exactly when its own elapsed milliseconds are below 30, without fetching; the error it throws
  there is the session-integrity error.
\<close>

theorem timing_floors:
  "(connection (sync env) = ServerCertificates (X509 leaf # rest) \<and>
    computeSpkiHash P leaf = pinHash \<longrightarrow>
      fst (ensureConfigSync P domain pinHash (sync env) n) =
        (if elapsedMs (startNanos (sync env)) (endNanos (sync env)) < 50
         then Reject ''CONFIG_ERROR'' ''DataSync: Sync timing anomaly'' else Resolve True) \<and>
      sessionIntegrity (fst (snd (ensureConfigSync P domain pinHash (sync env) n))) =
        (if elapsedMs (startNanos (sync env)) (endNanos (sync env)) < 50
         then False else sessionIntegrity n)) \<and>
   (connection (sync env) = ServerCertificates (X509 leaf # rest) \<and>
    computeSpkiHash P leaf = orElse (SSL_PIN_HASH_1 cfg) [] \<and>
    elapsedMs (startNanos (sync env)) (endNanos (sync env)) < 50 \<and>
    \<not> sessionCompromised w \<and> DataSyncManager w = Some n \<longrightarrow>
      fst (secureFetch P cfg url env w) =
        Inl (JsError (Some
          ''DataSync: Configuration sync failed - DataSync: Sync timing anomaly'')) \<and>
      sessionCompromised (fst (snd (secureFetch P cfg url env w))) \<and>
      nativeCompromised (fst (snd (secureFetch P cfg url env w)))) \<and>
   (\<not> sessionCompromised wB \<and> DataSyncManager wB = Some nB \<and>
    ensureConfigSync P (orElse (SSL_PIN_DOMAIN cfg) ''vulnbank.org'')
      (orElse (SSL_PIN_HASH_1 cfg) []) (sync envB) nB = (Resolve v, n', ev) \<longrightarrow>
      secureFetch P cfg url envB wB =
        (if dateNowEnd envB - dateNowStart envB < 30
         then (Inl (JsError (Some ''DataSync: Session integrity lost'')),
               wB\<lparr>DataSyncManager := Some n', sessionCompromised := True\<rparr>,
               CallEnsureConfigSync (orElse (SSL_PIN_DOMAIN cfg) ''vulnbank.org'')
                 (orElse (SSL_PIN_HASH_1 cfg) []) # ev)
         else fetchGuarded P url envB (wB\<lparr>DataSyncManager := Some n'\<rparr>)
                (CallEnsureConfigSync (orElse (SSL_PIN_DOMAIN cfg) ''vulnbank.org'')
                   (orElse (SSL_PIN_HASH_1 cfg) []) # ev)))"
proof (intro conjI impI)
  assume a: "connection (sync env) = ServerCertificates (X509 leaf # rest) \<and>
    computeSpkiHash P leaf = pinHash"
  then have c: "connection (sync env) = ServerCertificates (X509 leaf # rest)" by simp
  note e = ensureConfigSync_leaf[OF c, of P domain pinHash n]
  show "fst (ensureConfigSync P domain pinHash (sync env) n) =
        (if elapsedMs (startNanos (sync env)) (endNanos (sync env)) < 50
         then Reject ''CONFIG_ERROR'' ''DataSync: Sync timing anomaly'' else Resolve True)"
    using a by (simp add: e)
  show "sessionIntegrity (fst (snd (ensureConfigSync P domain pinHash (sync env) n))) =
        (if elapsedMs (startNanos (sync env)) (endNanos (sync env)) < 50
         then False else sessionIntegrity n)"
    using a by (simp add: e install_fields)
next
  assume a: "connection (sync env) = ServerCertificates (X509 leaf # rest) \<and>
    computeSpkiHash P leaf = orElse (SSL_PIN_HASH_1 cfg) [] \<and>
    elapsedMs (startNanos (sync env)) (endNanos (sync env)) < 50 \<and>
    \<not> sessionCompromised w \<and> DataSyncManager w = Some n"
  then have c: "connection (sync env) = ServerCertificates (X509 leaf # rest)"
    and b1: "\<not> sessionCompromised w" and b2: "DataSyncManager w = Some n" by simp_all
  have e: "ensureConfigSync P (orElse (SSL_PIN_DOMAIN cfg) ''vulnbank.org'')
      (orElse (SSL_PIN_HASH_1 cfg) []) (sync env) n =
      (Reject ''CONFIG_ERROR'' ''DataSync: Sync timing anomaly'',
       (fst (installInterceptorIfNeeded (orElse (SSL_PIN_DOMAIN cfg) ''vulnbank.org'')
          (orElse (SSL_PIN_HASH_1 cfg) []) n))\<lparr>sessionIntegrity := False\<rparr>,
       snd (installInterceptorIfNeeded (orElse (SSL_PIN_DOMAIN cfg) ''vulnbank.org'')
          (orElse (SSL_PIN_HASH_1 cfg) []) n)
         @ [ConnectAttempt (orElse (SSL_PIN_DOMAIN cfg) ''vulnbank.org''), ExtractCertificates,
            ComputeSpki, ComparePin])"
    using a ensureConfigSync_leaf[OF c, of P] by simp
  have ne: "''DataSync: Sync timing anomaly'' \<noteq> []" by simp
  note f = secureFetch_rejected_flags[OF b1 b2 e ne, of url]
  from f show "fst (secureFetch P cfg url env w) =
        Inl (JsError (Some
          ''DataSync: Configuration sync failed - DataSync: Sync timing anomaly''))" by simp
  from f show "sessionCompromised (fst (snd (secureFetch P cfg url env w)))" by simp
  from f show "nativeCompromised (fst (snd (secureFetch P cfg url env w)))" by simp
next
  assume a: "\<not> sessionCompromised wB \<and> DataSyncManager wB = Some nB \<and>
    ensureConfigSync P (orElse (SSL_PIN_DOMAIN cfg) ''vulnbank.org'')
      (orElse (SSL_PIN_HASH_1 cfg) []) (sync envB) nB = (Resolve v, n', ev)"
  then have b1: "\<not> sessionCompromised wB" and b2: "DataSyncManager wB = Some nB"
    and b3: "ensureConfigSync P (orElse (SSL_PIN_DOMAIN cfg) ''vulnbank.org'')
      (orElse (SSL_PIN_HASH_1 cfg) []) (sync envB) nB = (Resolve v, n', ev)" by simp_all
  show "secureFetch P cfg url envB wB =
        (if dateNowEnd envB - dateNowStart envB < 30
         then (Inl (JsError (Some ''DataSync: Session integrity lost'')),
               wB\<lparr>DataSyncManager := Some n', sessionCompromised := True\<rparr>,
               CallEnsureConfigSync (orElse (SSL_PIN_DOMAIN cfg) ''vulnbank.org'')
                 (orElse (SSL_PIN_HASH_1 cfg) []) # ev)
         else fetchGuarded P url envB (wB\<lparr>DataSyncManager := Some n'\<rparr>)
                (CallEnsureConfigSync (orElse (SSL_PIN_DOMAIN cfg) ''vulnbank.org'')
                   (orElse (SSL_PIN_HASH_1 cfg) []) # ev))"
    using secureFetch_too_fast[OF b1 b2 b3, of url] secureFetch_validated[OF b1 b2 b3, of url]
    by auto
qed

theorem timing_floors_witness:
  "connection (sync (sampleEnv\<lparr>sync := sampleSync\<lparr>endNanos := 10000000\<rparr>\<rparr>)) =
     ServerCertificates (X509 \<lparr>publicKeyEncoded = [0, 0, 0, 0]\<rparr> # []) \<and>
   computeSpkiHash samplePlatform \<lparr>publicKeyEncoded = [0, 0, 0, 0]\<rparr> =
     orElse (SSL_PIN_HASH_1 sampleConfig) [] \<and>
   elapsedMs (startNanos (sync (sampleEnv\<lparr>sync := sampleSync\<lparr>endNanos := 10000000\<rparr>\<rparr>)))
     (endNanos (sync (sampleEnv\<lparr>sync := sampleSync\<lparr>endNanos := 10000000\<rparr>\<rparr>))) = 10 \<and>
   \<not> sessionCompromised initialWorld \<and> DataSyncManager initialWorld = Some initialNative \<and>
   fst (ensureConfigSync samplePlatform ''bank.test'' (orElse (SSL_PIN_HASH_1 sampleConfig) [])
     (sync (sampleEnv\<lparr>sync := sampleSync\<lparr>endNanos := 10000000\<rparr>\<rparr>)) initialNative) =
     Reject ''CONFIG_ERROR'' ''DataSync: Sync timing anomaly'' \<and>
   \<not> sessionIntegrity (fst (snd (ensureConfigSync samplePlatform ''bank.test''
     (orElse (SSL_PIN_HASH_1 sampleConfig) [])
     (sync (sampleEnv\<lparr>sync := sampleSync\<lparr>endNanos := 10000000\<rparr>\<rparr>)) initialNative))) \<and>
   fst (secureFetch samplePlatform sampleConfig ''https://bank.test/login''
     (sampleEnv\<lparr>sync := sampleSync\<lparr>endNanos := 10000000\<rparr>\<rparr>) initialWorld) =
     Inl (JsError (Some
       ''DataSync: Configuration sync failed - DataSync: Sync timing anomaly'')) \<and>
   sessionCompromised (fst (snd (secureFetch samplePlatform sampleConfig
     ''https://bank.test/login'' (sampleEnv\<lparr>sync := sampleSync\<lparr>endNanos := 10000000\<rparr>\<rparr>)
     initialWorld))) \<and>
   ensureConfigSync samplePlatform (orElse (SSL_PIN_DOMAIN sampleConfig) ''vulnbank.org'')
     (orElse (SSL_PIN_HASH_1 sampleConfig) []) (sync (sampleEnv\<lparr>dateNowEnd := 1029\<rparr>))
     initialNative =
     (Resolve True, validatedNative,
      [InstallInterceptor ''bank.test'' ''AAAA'', ConnectAttempt ''bank.test'',
       ExtractCertificates, ComputeSpki, ComparePin]) \<and>
   dateNowEnd (sampleEnv\<lparr>dateNowEnd := 1029\<rparr>) - dateNowStart (sampleEnv\<lparr>dateNowEnd := 1029\<rparr>)
     = 29 \<and>
   secureFetch samplePlatform sampleConfig ''https://bank.test/login''
     (sampleEnv\<lparr>dateNowEnd := 1029\<rparr>) initialWorld =
     (Inl (JsError (Some ''DataSync: Session integrity lost'')),
      initialWorld\<lparr>DataSyncManager := Some validatedNative, sessionCompromised := True\<rparr>,
      [CallEnsureConfigSync ''bank.test'' ''AAAA'', InstallInterceptor ''bank.test'' ''AAAA'',
       ConnectAttempt ''bank.test'', ExtractCertificates, ComputeSpki, ComparePin])"
proof -
  let ?slow = "sampleEnv\<lparr>sync := sampleSync\<lparr>endNanos := 10000000\<rparr>\<rparr>"
  let ?js = "sampleEnv\<lparr>dateNowEnd := 1029\<rparr>"
  let ?ev = "[InstallInterceptor ''bank.test'' ''AAAA'', ConnectAttempt ''bank.test'',
       ExtractCertificates, ComputeSpki, ComparePin]"
  have h1: "connection (sync ?slow) =
      ServerCertificates (X509 \<lparr>publicKeyEncoded = [0, 0, 0, 0]\<rparr> # [])"
    "computeSpkiHash samplePlatform \<lparr>publicKeyEncoded = [0, 0, 0, 0]\<rparr> =
      orElse (SSL_PIN_HASH_1 sampleConfig) []"
    "elapsedMs (startNanos (sync ?slow)) (endNanos (sync ?slow)) = 10"
    "\<not> sessionCompromised initialWorld" "DataSyncManager initialWorld = Some initialNative"
    by (simp_all add: sample_defs code_defs)
  have h2: "ensureConfigSync samplePlatform (orElse (SSL_PIN_DOMAIN sampleConfig) ''vulnbank.org'')
     (orElse (SSL_PIN_HASH_1 sampleConfig) []) (sync ?js) initialNative =
     (Resolve True, validatedNative, ?ev)"
    "dateNowEnd ?js - dateNowStart ?js = 29"
    "orElse (SSL_PIN_DOMAIN sampleConfig) ''vulnbank.org'' = ''bank.test''"
    "orElse (SSL_PIN_HASH_1 sampleConfig) [] = ''AAAA''"
    using sample_validates by (simp_all add: sample_defs code_defs)
  note T = timing_floors [where env = ?slow and leaf = "\<lparr>publicKeyEncoded = [0, 0, 0, 0]\<rparr>"
      and rest = "[]" and P = samplePlatform and pinHash = "orElse (SSL_PIN_HASH_1 sampleConfig) []"
      and domain = "''bank.test''" and n = initialNative and cfg = sampleConfig
      and w = initialWorld and url = "''https://bank.test/login''"
      and wB = initialWorld and nB = initialNative and envB = ?js and v = True
      and n' = validatedNative and ev = ?ev]
  from T h1 have c1:
    "fst (ensureConfigSync samplePlatform ''bank.test'' (orElse (SSL_PIN_HASH_1 sampleConfig) [])
       (sync ?slow) initialNative) = Reject ''CONFIG_ERROR'' ''DataSync: Sync timing anomaly''"
    "\<not> sessionIntegrity (fst (snd (ensureConfigSync samplePlatform ''bank.test''
       (orElse (SSL_PIN_HASH_1 sampleConfig) []) (sync ?slow) initialNative)))"
    "fst (secureFetch samplePlatform sampleConfig ''https://bank.test/login'' ?slow
       initialWorld) =
     Inl (JsError (Some ''DataSync: Configuration sync failed - DataSync: Sync timing anomaly''))"
    "sessionCompromised (fst (snd (secureFetch samplePlatform sampleConfig
       ''https://bank.test/login'' ?slow initialWorld)))"
    by simp_all
  from T h1(4,5) h2 have c2: "secureFetch samplePlatform sampleConfig ''https://bank.test/login''
      ?js initialWorld =
     (Inl (JsError (Some ''DataSync: Session integrity lost'')),
      initialWorld\<lparr>DataSyncManager := Some validatedNative, sessionCompromised := True\<rparr>,
      CallEnsureConfigSync ''bank.test'' ''AAAA'' # ?ev)"
    by simp
  from h1 h2 c1 c2 show ?thesis by simp
qed

text \<open>
  Below the JavaScript floor only (80 ms natively, 10 ms in JavaScript, matching pin) the error
  is the one an already compromised session gets, not a timing-anomaly error; the native floor
  has an error of its own.
\<close>

theorem js_floor_error_counterexample:
  "elapsedMs (startNanos (sync (sampleEnv\<lparr>dateNowEnd := 1010\<rparr>)))
     (endNanos (sync (sampleEnv\<lparr>dateNowEnd := 1010\<rparr>))) = 80 \<and>
   dateNowEnd (sampleEnv\<lparr>dateNowEnd := 1010\<rparr>) - dateNowStart (sampleEnv\<lparr>dateNowEnd := 1010\<rparr>)
     = 10 \<and>
   fst (secureFetch samplePlatform sampleConfig ''https://bank.test/login''
     (sampleEnv\<lparr>dateNowEnd := 1010\<rparr>) initialWorld) =
     Inl (JsError (Some ''DataSync: Session integrity lost'')) \<and>
   fst (secureFetch samplePlatform sampleConfig ''https://bank.test/login'' sampleEnv
     trippedWorld) = Inl (JsError (Some ''DataSync: Session integrity lost'')) \<and>
   \<not> stringIncludes ''DataSync: Session integrity lost'' ''timing'' \<and>
   fst (ensureConfigSync samplePlatform ''bank.test'' ''AAAA''
     (sampleSync\<lparr>endNanos := 10000000\<rparr>) initialNative) =
     Reject ''CONFIG_ERROR'' ''DataSync: Sync timing anomaly''"
  by (simp add: sample_defs code_defs)

section \<open>Decoys\<close>

text \<open>
  Claim C7. A run with every decoy replaced by a hook that resolves \<open>true\<close> ends in the same
  state as the run with the decoys of the module, and every outcome other than the decoys' own
  return values is the same: in particular \<open>secureFetch\<close> still fails on a mismatched pin. A
  decoy leaves the state as it was, and what it returns does not depend on the state.
\<close>

theorem decoys_do_not_interfere:
  "snd (run P cfg Bypassed ops w) = snd (run P cfg Original ops w) \<and>
   observed ops (fst (run P cfg Bypassed ops w)) = observed ops (fst (run P cfg Original ops w)) \<and>
   (isDecoy op \<longrightarrow> snd (step P cfg d op w) = w) \<and>
   (isDecoy op \<longrightarrow> DataSyncManager w \<noteq> None \<longrightarrow> DataSyncManager w' \<noteq> None \<longrightarrow>
      fst (step P cfg d op w) = fst (step P cfg d op w'))"
  using run_decoys[of P cfg ops w] step_decoy_world[of op P cfg d w]
    step_decoy_reads_nothing[of op w w' P cfg d]
  by blast

theorem decoys_do_not_interfere_witness:
  "isDecoy (ValidateCertificate ''bank.test'' (ServerCertificates [])) \<and>
   DataSyncManager initialWorld \<noteq> None \<and> DataSyncManager trippedWorld \<noteq> None \<and>
   snd (step samplePlatform sampleConfig Original
          (ValidateCertificate ''bank.test'' (ServerCertificates [])) initialWorld) =
     initialWorld \<and>
   fst (step samplePlatform sampleConfig Original
          (ValidateCertificate ''bank.test'' (ServerCertificates [])) initialWorld) =
   fst (step samplePlatform sampleConfig Original
          (ValidateCertificate ''bank.test'' (ServerCertificates [])) trippedWorld) \<and>
   fst (step samplePlatform sampleConfig Original
          (ValidateCertificate ''bank.test'' (ServerCertificates [])) initialWorld) =
     Promised (Resolve False) \<and>
   fst (step samplePlatform sampleConfig Bypassed
          (ValidateCertificate ''bank.test'' (ServerCertificates [])) initialWorld) =
     Promised (Resolve True) \<and>
   snd (run samplePlatform sampleConfig Bypassed
          [ValidateCertificate ''bank.test'' (ServerCertificates []), CheckSSLPinning,
           VerifyCertificateChain, SecureFetch ''https://bank.test/login'' mismatchEnv]
          initialWorld) =
   snd (run samplePlatform sampleConfig Original
          [ValidateCertificate ''bank.test'' (ServerCertificates []), CheckSSLPinning,
           VerifyCertificateChain, SecureFetch ''https://bank.test/login'' mismatchEnv]
          initialWorld) \<and>
   observed
     [ValidateCertificate ''bank.test'' (ServerCertificates []), CheckSSLPinning,
      VerifyCertificateChain, SecureFetch ''https://bank.test/login'' mismatchEnv]
     (fst (run samplePlatform sampleConfig Original
          [ValidateCertificate ''bank.test'' (ServerCertificates []), CheckSSLPinning,
           VerifyCertificateChain, SecureFetch ''https://bank.test/login'' mismatchEnv]
          initialWorld)) =
   observed
     [ValidateCertificate ''bank.test'' (ServerCertificates []), CheckSSLPinning,
      VerifyCertificateChain, SecureFetch ''https://bank.test/login'' mismatchEnv]
     (fst (run samplePlatform sampleConfig Bypassed
          [ValidateCertificate ''bank.test'' (ServerCertificates []), CheckSSLPinning,
           VerifyCertificateChain, SecureFetch ''https://bank.test/login'' mismatchEnv]
          initialWorld)) \<and>
   observed
     [ValidateCertificate ''bank.test'' (ServerCertificates []), CheckSSLPinning,
      VerifyCertificateChain, SecureFetch ''https://bank.test/login'' mismatchEnv]
     (fst (run samplePlatform sampleConfig Bypassed
          [ValidateCertificate ''bank.test'' (ServerCertificates []), CheckSSLPinning,
           VerifyCertificateChain, SecureFetch ''https://bank.test/login'' mismatchEnv]
          initialWorld)) =
     [Fetched (Inl (JsError (Some
        ''DataSync: Configuration sync failed - DataSync: Configuration mismatch'')))]"
proof -
  let ?ops = "[ValidateCertificate ''bank.test'' (ServerCertificates []), CheckSSLPinning,
           VerifyCertificateChain, SecureFetch ''https://bank.test/login'' mismatchEnv]"
  let ?op = "ValidateCertificate ''bank.test'' (ServerCertificates [])"
  have h: "isDecoy ?op" "DataSyncManager initialWorld \<noteq> None"
    "DataSyncManager trippedWorld \<noteq> None"
    by (simp_all add: isDecoy_def sample_defs)
  have v: "fst (step samplePlatform sampleConfig Original ?op initialWorld) =
      Promised (Resolve False)"
    "fst (step samplePlatform sampleConfig Bypassed ?op initialWorld) = Promised (Resolve True)"
    by (simp_all add: sample_defs code_defs validateCertificate_def)
  have r: "run samplePlatform sampleConfig Bypassed ?ops initialWorld =
      ([Promised (Resolve True), Promised (Resolve True), Promised (Resolve True),
        Fetched (Inl (JsError (Some
          ''DataSync: Configuration sync failed - DataSync: Configuration mismatch'')))],
       \<lparr>sessionCompromised = True,
        DataSyncManager = Some (installedNative\<lparr>sessionIntegrity := False\<rparr>)\<rparr>)"
    by (simp add: sample_defs code_defs)
  have o: "observed ?ops (fst (run samplePlatform sampleConfig Bypassed ?ops initialWorld)) =
     [Fetched (Inl (JsError (Some
        ''DataSync: Configuration sync failed - DataSync: Configuration mismatch'')))]"
    unfolding r by (simp add: observed_def isDecoy_def)
  note T = decoys_do_not_interfere [where P = samplePlatform and cfg = sampleConfig
      and ops = ?ops and w = initialWorld and op = ?op and d = Original and w' = trippedWorld]
  from T h v o show ?thesis by simp
qed

section \<open>Leaf extraction\<close>

text \<open>
  Claim C8, as the code has it. An empty chain (no certificate available) or a leaf that is not
  an X.509 certificate (malformed) makes \<open>ensureConfigSync\<close> reject and set \<open>sessionIntegrity\<close>
  to false, and \<open>secureFetch\<close> then throws and sets \<open>sessionCompromised\<close>. On a request to the
  pinned domain the interceptor throws for a missing handshake, an empty chain or such a leaf,
  and writes no flag. When the request is the fetch of \<open>secureFetch\<close>, \<open>sessionCompromised\<close> is
  set exactly when the message of the rejected fetch includes \<open>DataSync\<close>.
\<close>

theorem missing_or_malformed_leaf_is_rejected:
  "((connection (sync env) = ServerCertificates [] \<and> m = ''DataSync: No configuration available'' \<or>
     connection (sync env) = ServerCertificates (OtherCertificate # rest) \<and>
       m = ''DataSync: Configuration format error'') \<longrightarrow>
      fst (ensureConfigSync P domain pinHash (sync env) n) = Reject ''CONFIG_ERROR'' m \<and>
      \<not> sessionIntegrity (fst (snd (ensureConfigSync P domain pinHash (sync env) n))) \<and>
      (\<not> sessionCompromised w \<and> DataSyncManager w = Some n \<longrightarrow>
         fst (secureFetch P cfg url env w) =
           Inl (JsError (Some (''DataSync: Configuration sync failed - '' @ m))) \<and>
         sessionCompromised (fst (snd (secureFetch P cfg url env w))) \<and>
         nativeCompromised (fst (snd (secureFetch P cfg url env w))))) \<and>
   (equalsIgnoreCase host (pinnedDomain ci) \<and>
    (handshake r = None \<and> m' = ''DataSync: Configuration unavailable'' \<or>
     handshake r = Some [] \<and> m' = ''DataSync: Configuration missing'' \<or>
     handshake r = Some (OtherCertificate # rest') \<and>
       m' = ''DataSync: Configuration format error'') \<longrightarrow>
      fst (intercept P ci host (Response r)) = IOException m' \<and>
      snd (step P cfg d (Request host (Response r)) wA) = wA \<and>
      (\<not> sessionCompromised wB \<and> DataSyncManager wB = Some nB \<and>
       ensureConfigSync P (orElse (SSL_PIN_DOMAIN cfg) ''vulnbank.org'')
         (orElse (SSL_PIN_HASH_1 cfg) []) (sync envB) nB = (Resolve v, n', ev) \<and>
       30 \<le> dateNowEnd envB - dateNowStart envB \<and> clientFactory n' = Some ci \<and>
       requestHost envB = host \<and> proceeded envB = Response r \<longrightarrow>
         fst (secureFetch P cfg url envB wB) = Inl (JsError (rejectionMessage P m')) \<and>
         fst (snd (secureFetch P cfg url envB wB)) =
           (if mentionsDataSync (JsError (rejectionMessage P m'))
            then wB\<lparr>DataSyncManager := Some n', sessionCompromised := True\<rparr>
            else wB\<lparr>DataSyncManager := Some n'\<rparr>)))"
proof (intro conjI impI)
  assume a: "connection (sync env) = ServerCertificates [] \<and> m = ''DataSync: No configuration available'' \<or>
     connection (sync env) = ServerCertificates (OtherCertificate # rest) \<and>
       m = ''DataSync: Configuration format error''"
  have e: "\<And>dm ph. ensureConfigSync P dm ph (sync env) n =
      (Reject ''CONFIG_ERROR'' m,
       (fst (installInterceptorIfNeeded dm ph n))\<lparr>sessionIntegrity := False\<rparr>,
       snd (installInterceptorIfNeeded dm ph n) @ [ConnectAttempt dm, ExtractCertificates])"
    using a
    by (auto simp: ensureConfigSync_def installInterceptorIfNeeded_def Let_def)
  have ne: "m \<noteq> []" using a by auto
  show "fst (ensureConfigSync P domain pinHash (sync env) n) = Reject ''CONFIG_ERROR'' m"
    by (simp add: e)
  show "\<not> sessionIntegrity (fst (snd (ensureConfigSync P domain pinHash (sync env) n)))"
    by (simp add: e)
  assume b: "\<not> sessionCompromised w \<and> DataSyncManager w = Some n"
  then have b1: "\<not> sessionCompromised w" and b2: "DataSyncManager w = Some n" by simp_all
  note f = secureFetch_rejected_flags[OF b1 b2 e ne, of cfg url]
  from f show "fst (secureFetch P cfg url env w) =
           Inl (JsError (Some (''DataSync: Configuration sync failed - '' @ m)))" by simp
  from f show "sessionCompromised (fst (snd (secureFetch P cfg url env w)))" by simp
  from f show "nativeCompromised (fst (snd (secureFetch P cfg url env w)))" by simp
next
  assume a: "equalsIgnoreCase host (pinnedDomain ci) \<and>
    (handshake r = None \<and> m' = ''DataSync: Configuration unavailable'' \<or>
     handshake r = Some [] \<and> m' = ''DataSync: Configuration missing'' \<or>
     handshake r = Some (OtherCertificate # rest') \<and>
       m' = ''DataSync: Configuration format error'')"
  then have i: "fst (intercept P ci host (Response r)) = IOException m'"
    using intercept_pinned[of host ci P r] by auto
  then show "fst (intercept P ci host (Response r)) = IOException m'" .
  show "snd (step P cfg d (Request host (Response r)) wA) = wA" by (rule step_request_world)
  assume b: "\<not> sessionCompromised wB \<and> DataSyncManager wB = Some nB \<and>
       ensureConfigSync P (orElse (SSL_PIN_DOMAIN cfg) ''vulnbank.org'')
         (orElse (SSL_PIN_HASH_1 cfg) []) (sync envB) nB = (Resolve v, n', ev) \<and>
       30 \<le> dateNowEnd envB - dateNowStart envB \<and> clientFactory n' = Some ci \<and>
       requestHost envB = host \<and> proceeded envB = Response r"
  then have b1: "\<not> sessionCompromised wB" and b2: "DataSyncManager wB = Some nB"
    and b3: "ensureConfigSync P (orElse (SSL_PIN_DOMAIN cfg) ''vulnbank.org'')
         (orElse (SSL_PIN_HASH_1 cfg) []) (sync envB) nB = (Resolve v, n', ev)"
    and b4: "30 \<le> dateNowEnd envB - dateNowStart envB" and b5: "clientFactory n' = Some ci"
    and b6: "fst (intercept P ci (requestHost envB) (proceeded envB)) = IOException m'"
    using i by simp_all
  note s = secureFetch_interceptor_rejects[OF b1 b2 b3 b4 b5 b6, of url]
  from s show "fst (secureFetch P cfg url envB wB) = Inl (JsError (rejectionMessage P m'))"
    by simp
  from s show "fst (snd (secureFetch P cfg url envB wB)) =
           (if mentionsDataSync (JsError (rejectionMessage P m'))
            then wB\<lparr>DataSyncManager := Some n', sessionCompromised := True\<rparr>
            else wB\<lparr>DataSyncManager := Some n'\<rparr>)" by simp
qed

theorem missing_or_malformed_leaf_is_rejected_witness:
  "connection (sync (sampleEnv\<lparr>sync := sampleSync\<lparr>connection := ServerCertificates []\<rparr>\<rparr>)) =
     ServerCertificates [] \<and>
   \<not> sessionCompromised initialWorld \<and> DataSyncManager initialWorld = Some initialNative \<and>
   fst (ensureConfigSync samplePlatform ''bank.test'' ''AAAA''
     (sync (sampleEnv\<lparr>sync := sampleSync\<lparr>connection := ServerCertificates []\<rparr>\<rparr>))
     initialNative) = Reject ''CONFIG_ERROR'' ''DataSync: No configuration available'' \<and>
   fst (secureFetch samplePlatform sampleConfig ''https://bank.test/login''
     (sampleEnv\<lparr>sync := sampleSync\<lparr>connection := ServerCertificates []\<rparr>\<rparr>) initialWorld) =
     Inl (JsError (Some
       ''DataSync: Configuration sync failed - DataSync: No configuration available'')) \<and>
   sessionCompromised (fst (snd (secureFetch samplePlatform sampleConfig
     ''https://bank.test/login''
     (sampleEnv\<lparr>sync := sampleSync\<lparr>connection := ServerCertificates []\<rparr>\<rparr>) initialWorld))) \<and>
   nativeCompromised (fst (snd (secureFetch samplePlatform sampleConfig
     ''https://bank.test/login''
     (sampleEnv\<lparr>sync := sampleSync\<lparr>connection := ServerCertificates []\<rparr>\<rparr>) initialWorld))) \<and>
   equalsIgnoreCase ''bank.test'' (pinnedDomain \<lparr>pinnedDomain = ''bank.test'', pinnedHash = ''AAAA''\<rparr>) \<and>
   handshake \<lparr>handshake = Some [OtherCertificate], status = 200\<rparr> = Some (OtherCertificate # []) \<and>
   fst (intercept samplePlatform \<lparr>pinnedDomain = ''bank.test'', pinnedHash = ''AAAA''\<rparr>
     ''bank.test'' (Response \<lparr>handshake = Some [OtherCertificate], status = 200\<rparr>)) =
     IOException ''DataSync: Configuration format error'' \<and>
   ensureConfigSync samplePlatform (orElse (SSL_PIN_DOMAIN sampleConfig) ''vulnbank.org'')
     (orElse (SSL_PIN_HASH_1 sampleConfig) [])
     (sync (sampleEnv\<lparr>proceeded := Response \<lparr>handshake = Some [OtherCertificate], status = 200\<rparr>\<rparr>))
     initialNative =
     (Resolve True, validatedNative,
      [InstallInterceptor ''bank.test'' ''AAAA'', ConnectAttempt ''bank.test'',
       ExtractCertificates, ComputeSpki, ComparePin]) \<and>
   fst (secureFetch samplePlatform sampleConfig ''https://bank.test/login''
     (sampleEnv\<lparr>proceeded := Response \<lparr>handshake = Some [OtherCertificate], status = 200\<rparr>\<rparr>)
     initialWorld) = Inl (JsError (Some ''DataSync: Configuration format error'')) \<and>
   fst (snd (secureFetch samplePlatform sampleConfig ''https://bank.test/login''
     (sampleEnv\<lparr>proceeded := Response \<lparr>handshake = Some [OtherCertificate], status = 200\<rparr>\<rparr>)
     initialWorld)) =
     initialWorld\<lparr>DataSyncManager := Some validatedNative, sessionCompromised := True\<rparr>"
proof -
  have h1: "connection (sync (sampleEnv\<lparr>sync := sampleSync\<lparr>connection := ServerCertificates []\<rparr>\<rparr>)) =
      ServerCertificates [] \<and>
    \<not> sessionCompromised initialWorld \<and> DataSyncManager initialWorld = Some initialNative"
    by (simp add: sample_defs)
  have h2: "equalsIgnoreCase ''bank.test''
      (pinnedDomain \<lparr>pinnedDomain = ''bank.test'', pinnedHash = ''AAAA''\<rparr>) \<and>
    handshake \<lparr>handshake = Some [OtherCertificate], status = 200\<rparr> = Some (OtherCertificate # [])"
    by (simp add: code_defs)
  have h3: "ensureConfigSync samplePlatform (orElse (SSL_PIN_DOMAIN sampleConfig) ''vulnbank.org'')
     (orElse (SSL_PIN_HASH_1 sampleConfig) [])
     (sync (sampleEnv\<lparr>proceeded := Response \<lparr>handshake = Some [OtherCertificate], status = 200\<rparr>\<rparr>))
     initialNative =
     (Resolve True, validatedNative,
      [InstallInterceptor ''bank.test'' ''AAAA'', ConnectAttempt ''bank.test'',
       ExtractCertificates, ComputeSpki, ComparePin]) \<and>
    30 \<le> dateNowEnd (sampleEnv\<lparr>proceeded := Response \<lparr>handshake = Some [OtherCertificate], status = 200\<rparr>\<rparr>)
       - dateNowStart (sampleEnv\<lparr>proceeded := Response \<lparr>handshake = Some [OtherCertificate], status = 200\<rparr>\<rparr>) \<and>
    clientFactory validatedNative = Some \<lparr>pinnedDomain = ''bank.test'', pinnedHash = ''AAAA''\<rparr> \<and>
    requestHost (sampleEnv\<lparr>proceeded := Response \<lparr>handshake = Some [OtherCertificate], status = 200\<rparr>\<rparr>)
      = ''bank.test'' \<and>
    proceeded (sampleEnv\<lparr>proceeded := Response \<lparr>handshake = Some [OtherCertificate], status = 200\<rparr>\<rparr>)
      = Response \<lparr>handshake = Some [OtherCertificate], status = 200\<rparr>"
    using sample_validates by (simp add: sample_defs code_defs)
  have m: "mentionsDataSync (JsError (Some ''DataSync: Configuration format error'')) \<and>
      rejectionMessage samplePlatform ''DataSync: Configuration format error'' =
        Some ''DataSync: Configuration format error''"
    by (simp add: mentionsDataSync_def samplePlatform_def)
  from missing_or_malformed_leaf_is_rejected [where
      env = "sampleEnv\<lparr>sync := sampleSync\<lparr>connection := ServerCertificates []\<rparr>\<rparr>"
      and m = "''DataSync: No configuration available''" and rest = "[]"
      and P = samplePlatform and domain = "''bank.test''" and pinHash = "''AAAA''"
      and n = initialNative and w = initialWorld and cfg = sampleConfig
      and url = "''https://bank.test/login''" and host = "''bank.test''"
      and ci = "\<lparr>pinnedDomain = ''bank.test'', pinnedHash = ''AAAA''\<rparr>"
      and r = "\<lparr>handshake = Some [OtherCertificate], status = 200\<rparr>"
      and m' = "''DataSync: Configuration format error''" and rest' = "[]"
      and d = Original and wA = initialWorld and wB = initialWorld and nB = initialNative
      and envB = "sampleEnv\<lparr>proceeded := Response \<lparr>handshake = Some [OtherCertificate], status = 200\<rparr>\<rparr>"
      and v = True and n' = validatedNative
      and ev = "[InstallInterceptor ''bank.test'' ''AAAA'', ConnectAttempt ''bank.test'',
                 ExtractCertificates, ComputeSpki, ComparePin]"] h1 h2 h3 m
  show ?thesis by simp
qed

text \<open>
  An empty chain or a leaf that is not X.509 on the primary transport fails the request and
  leaves both flags untouched; through \<open>secureFetch\<close> the flags stay untouched when the
  rejected fetch carries another message, and \<open>sessionIntegrity\<close> stays true in any case.
\<close>

theorem leaf_extraction_interceptor_counterexample:
  "step samplePlatform sampleConfig Original
     (Request ''bank.test'' (Response \<lparr>handshake = Some [], status = 200\<rparr>))
     (initialWorld\<lparr>DataSyncManager := Some installedNative\<rparr>) =
     (Transported (IOException ''DataSync: Configuration missing''),
      initialWorld\<lparr>DataSyncManager := Some installedNative\<rparr>) \<and>
   step samplePlatform sampleConfig Original
     (Request ''bank.test'' (Response \<lparr>handshake = Some [OtherCertificate], status = 200\<rparr>))
     (initialWorld\<lparr>DataSyncManager := Some installedNative\<rparr>) =
     (Transported (IOException ''DataSync: Configuration format error''),
      initialWorld\<lparr>DataSyncManager := Some installedNative\<rparr>) \<and>
   \<not> compromised (initialWorld\<lparr>DataSyncManager := Some installedNative\<rparr>) \<and>
   fst (secureFetch opaquePlatform sampleConfig ''https://bank.test/login''
     (sampleEnv\<lparr>proceeded := Response \<lparr>handshake = Some [], status = 200\<rparr>\<rparr>) initialWorld) =
     Inl (JsError (Some ''Network request failed'')) \<and>
   fst (snd (secureFetch opaquePlatform sampleConfig ''https://bank.test/login''
     (sampleEnv\<lparr>proceeded := Response \<lparr>handshake = Some [], status = 200\<rparr>\<rparr>) initialWorld)) =
     \<lparr>sessionCompromised = False, DataSyncManager = Some validatedNative\<rparr> \<and>
   \<not> compromised \<lparr>sessionCompromised = False, DataSyncManager = Some validatedNative\<rparr> \<and>
   fst (secureFetch samplePlatform sampleConfig ''https://bank.test/login''
     (sampleEnv\<lparr>proceeded := Response \<lparr>handshake = Some [OtherCertificate], status = 200\<rparr>\<rparr>)
     initialWorld) = Inl (JsError (Some ''DataSync: Configuration format error'')) \<and>
   fst (snd (secureFetch samplePlatform sampleConfig ''https://bank.test/login''
     (sampleEnv\<lparr>proceeded := Response \<lparr>handshake = Some [OtherCertificate], status = 200\<rparr>\<rparr>)
     initialWorld)) = \<lparr>sessionCompromised = True, DataSyncManager = Some validatedNative\<rparr> \<and>
   metricsSessionIntegrity (fst (getConnectionMetrics validatedNative))"
  by (simp add: sample_defs code_defs compromised_def nativeCompromised_def
      getConnectionMetrics_def)

section \<open>Native module undefined\<close>

text \<open>
  Claim C9. When the native module is undefined and the session is not compromised,
  \<open>secureFetch\<close> goes straight to \<open>fetch\<close>: the only calls are the fetch and the request it
  sends, the outcome is the outcome of that request, and nothing of it depends on the pin
  configuration, on the verification connection or on the two clocks.
\<close>

theorem secureFetch_without_native_module:
  assumes "\<not> sessionCompromised w" and "DataSyncManager w = None"
  shows "secureFetch P cfg url env w =
     (case proceeded env of
        IOException m \<Rightarrow>
          (Inl (JsError (rejectionMessage P m)),
           (if mentionsDataSync (JsError (rejectionMessage P m))
            then w\<lparr>sessionCompromised := True\<rparr> else w),
           [CallFetch url, ChainProceed (requestHost env)])
      | Response r \<Rightarrow> (Inr r, w, [CallFetch url, ChainProceed (requestHost env)]))"
  using assms
  by (simp add: secureFetch_def fetchGuarded_def fetch_def Let_def split: ioResult.splits)

theorem secureFetch_without_native_module_witness:
  "\<not> sessionCompromised (initialWorld\<lparr>DataSyncManager := None\<rparr>) \<and>
   DataSyncManager (initialWorld\<lparr>DataSyncManager := None\<rparr>) = None \<and>
   secureFetch samplePlatform sampleConfig ''https://bank.test/login''
     (sampleEnv\<lparr>sync := sampleSync\<lparr>connection := ServerCertificates [certB], endNanos := 0\<rparr>,
                dateNowEnd := 1000,
                proceeded := Response \<lparr>handshake = Some [certB], status = 200\<rparr>\<rparr>)
     (initialWorld\<lparr>DataSyncManager := None\<rparr>) =
     (Inr \<lparr>handshake = Some [certB], status = 200\<rparr>,
      initialWorld\<lparr>DataSyncManager := None\<rparr>,
      [CallFetch ''https://bank.test/login'', ChainProceed ''bank.test''])"
  using secureFetch_without_native_module [of "initialWorld\<lparr>DataSyncManager := None\<rparr>"
      samplePlatform sampleConfig "''https://bank.test/login''"
      "sampleEnv\<lparr>sync := sampleSync\<lparr>connection := ServerCertificates [certB], endNanos := 0\<rparr>,
                dateNowEnd := 1000,
                proceeded := Response \<lparr>handshake = Some [certB], status = 200\<rparr>\<rparr>"]
  by (simp add: initialWorld_def sampleEnv_def)

section \<open>Other hosts\<close>

text \<open>
  Claim C10. For a request whose host differs from the pinned domain (compared without regard
  to case), the interceptor returns what \<open>chain.proceed(request)\<close> gives, without extracting a
  certificate, hashing or comparing, and the state is unchanged.
\<close>

theorem interceptor_passes_other_hosts:
  assumes "\<not> equalsIgnoreCase host (pinnedDomain ci)"
  shows "intercept P ci host p = (p, [ChainProceed host]) \<and>
         (DataSyncManager w = Some n \<and> clientFactory n = Some ci \<longrightarrow>
            step P cfg d (Request host p) w = (Transported p, w))"
  using assms by (simp add: intercept_def step_def)

theorem interceptor_passes_other_hosts_witness:
  "\<not> equalsIgnoreCase ''cdn.test'' (pinnedDomain \<lparr>pinnedDomain = ''bank.test'', pinnedHash = ''AAAA''\<rparr>) \<and>
   intercept samplePlatform \<lparr>pinnedDomain = ''bank.test'', pinnedHash = ''AAAA''\<rparr> ''cdn.test''
     (Response \<lparr>handshake = Some [certB], status = 200\<rparr>) =
     (Response \<lparr>handshake = Some [certB], status = 200\<rparr>, [ChainProceed ''cdn.test'']) \<and>
   DataSyncManager (initialWorld\<lparr>DataSyncManager := Some installedNative\<rparr>) = Some installedNative \<and>
   clientFactory installedNative = Some \<lparr>pinnedDomain = ''bank.test'', pinnedHash = ''AAAA''\<rparr> \<and>
   step samplePlatform sampleConfig Original
     (Request ''cdn.test'' (Response \<lparr>handshake = Some [certB], status = 200\<rparr>))
     (initialWorld\<lparr>DataSyncManager := Some installedNative\<rparr>) =
     (Transported (Response \<lparr>handshake = Some [certB], status = 200\<rparr>),
      initialWorld\<lparr>DataSyncManager := Some installedNative\<rparr>)"
  using interceptor_passes_other_hosts [of "''cdn.test''"
      "\<lparr>pinnedDomain = ''bank.test'', pinnedHash = ''AAAA''\<rparr>" samplePlatform
      "Response \<lparr>handshake = Some [certB], status = 200\<rparr>"
      "initialWorld\<lparr>DataSyncManager := Some installedNative\<rparr>" installedNative
      sampleConfig Original]
  by (simp add: equalsIgnoreCase_def lowercaseChar_def installedNative_def)

end
